theory Spec2Isabelle
  imports Main "HOL-Library.AList"
begin

section \<open>JavaScript values and control\<close>

text \<open>
  The game server is one JavaScript file: the rooms, the ten games and the turn timer.
  (The repository's other file, \<open>server.js\<close>, is a sample that only joins sockets to
  rooms and keeps no state; nothing here is about it.) A handler either returns, or
  throws a TypeError (a property read on \<open>undefined\<close>), which nothing in the file
  catches. The embedding is typed: a move payload and a board are values of a datatype
  with one variant per game, and the numbers in a payload are integers. A handler
  applied to the payload or the board of another game, a write that would leave a hole
  in an array, and an initial board whose random draws run out are outside it; such a
  run has the outcome \<open>Untyped\<close>.
\<close>

datatype 'a outcome = Returns 'a | Throws | Untyped

definition andThen :: "'a outcome \<Rightarrow> ('a \<Rightarrow> 'b outcome) \<Rightarrow> 'b outcome" where
  "andThen m f = (case m of Returns x \<Rightarrow> f x | Throws \<Rightarrow> Throws | Untyped \<Rightarrow> Untyped)"

text \<open>\<open>xs[i]\<close>: \<open>None\<close> is JavaScript's \<open>undefined\<close>.\<close>

fun at :: "'a list \<Rightarrow> int \<Rightarrow> 'a option" where
  "at [] i = None"
| "at (x # xs) i = (if i = 0 then Some x else if i < 0 then None else at xs (i - 1))"

text \<open>\<open>b[r][c]\<close>: throws when \<open>b[r]\<close> is undefined, and is undefined when only the
  column is out of range.\<close>

definition at2 :: "'a list list \<Rightarrow> int \<Rightarrow> int \<Rightarrow> 'a option outcome" where
  "at2 b r c = (case at b r of None \<Rightarrow> Throws | Some row \<Rightarrow> Returns (at row c))"

text \<open>\<open>xs[i] = v\<close> for an index that is in range. Out of range JavaScript would extend
  the array, leaving holes: \<open>Untyped\<close>.\<close>

fun put :: "'a list \<Rightarrow> int \<Rightarrow> 'a \<Rightarrow> 'a list outcome" where
  "put [] i v = Untyped"
| "put (x # xs) i v =
     (if i = 0 then Returns (v # xs)
      else if i < 0 then Untyped
      else andThen (put xs (i - 1) v) (\<lambda>ys. Returns (x # ys)))"

definition put2 :: "'a list list \<Rightarrow> int \<Rightarrow> int \<Rightarrow> 'a \<Rightarrow> 'a list list outcome" where
  "put2 b r c v =
     (case at b r of
        None \<Rightarrow> Throws
      | Some row \<Rightarrow> andThen (put row c v) (\<lambda>row'. put b r row'))"

text \<open>\<open>Array.prototype.findIndex\<close>: the first index whose element passes, or -1.\<close>

fun findIndex :: "('a \<Rightarrow> bool) \<Rightarrow> 'a list \<Rightarrow> int" where
  "findIndex P [] = -1"
| "findIndex P (x # xs) =
     (if P x then 0 else (let k = findIndex P xs in if k < 0 then -1 else k + 1))"

section \<open>Data model\<close>

type_synonym socket_id = string
type_synonym room_code = string
type_synonym handle = nat

record player =
  player_id :: socket_id
  player_name :: string
  ready :: bool

text \<open>Cell contents. tictactoe writes 'X' and 'O', connect4 'R' and 'Y', gomoku a filled
  and a hollow circle; \<open>None\<close> is \<open>null\<close>.\<close>

datatype mark = MarkX | MarkO
datatype disc = DiscR | DiscY
datatype stone = Filled | Hollow

text \<open>minichess letters: \<open>Upper Pawn\<close> is 'P', \<open>Lower King\<close> is 'k'.\<close>

datatype kind = Pawn | Rook | Knight | King
datatype chessman = Upper kind | Lower kind

text \<open>checkers strings: 'red', 'black', 'red-king', 'black-king'.\<close>

datatype colour = Red | Black
datatype checker = Man colour | Crowned colour

record lineScores =
  player1 :: int
  player2 :: int

datatype boxOwner = P1 | P2

record dotsBoard =
  gridSize :: int
  horizontalLines :: "bool list list"
  verticalLines :: "bool list list"
  boxes :: "boxOwner option list list"
  scores :: lineScores
  completedBoxes :: int
  totalBoxes :: int

record ludoPlayer =
  pieces :: "int list"
  home :: int

record ludoBoard =
  ludo_player1 :: ludoPlayer
  ludo_player2 :: ludoPlayer
  diceValue :: int
  diceRolled :: bool

record card =
  cardValue :: int
  flipped :: bool
  matched :: bool

text \<open>memorymatch and minesweeper address a score by the key \<open>player<k>\<close> built from
  an index; the association list is keyed by \<open>k\<close>.\<close>

type_synonym keyedScores = "(int \<times> int) list"

record memoryBoard =
  cards :: "card list"
  flippedCards :: "int list"
  memoryScores :: keyedScores

record mineCell =
  isMine :: bool
  isRevealed :: bool
  neighborCount :: int
  revealedBy :: "socket_id option"

record mineBoard =
  cells :: "mineCell list list"
  mineScores :: keyedScores

record ship =
  positions :: "(int \<times> int) list"
  sunk :: bool

datatype shot = Hit | Miss

record fleet =
  ships :: "ship list"
  shots :: "shot option list"

datatype board =
    NoBoard
  | TicTacToeBoard "mark option list"
  | Connect4Board "disc option list list"
  | CheckersBoard "checker option list list"
  | BattleshipBoard "(socket_id \<times> fleet) list"
  | GomokuBoard "stone option list list"
  | DotsBoard dotsBoard
  | LudoBoard ludoBoard
  | ChessBoard "chessman option list list"
  | MemoryBoard memoryBoard
  | MineBoard mineBoard

datatype phase = NoPhase | Setup | Playing

text \<open>
  The game state object. \<open>players\<close> is the content of the array the object refers to;
  \<open>playersShared\<close> records that this array is still the very array of the room
  (\<open>players: room.players\<close> copies the reference, so a later \<open>push\<close> by joinRoom shows
  here too). \<open>phase\<close> and \<open>draw\<close> are properties only some games set: \<open>NoPhase\<close> and
  \<open>False\<close> stand for their absence. The countdown that only reports the remaining
  seconds (\<open>timeLeft\<close>, the \<open>timerUpdate\<close> ticks) is left out.
\<close>

record gameState =
  currentPlayer :: socket_id
  gameType :: string
  board :: board
  winner :: "socket_id option"
  gameOver :: bool
  players :: "player list"
  playersShared :: bool
  timer :: "handle option"
  timerStarted :: bool
  firstMoveMade :: bool
  phase :: phase
  draw :: bool

datatype move =
    IndexMove int
  | ColumnMove int
  | LineMove string int int
  | LudoMove string int
  | FromToMove int int int int
  | CardMove int
  | CellMove int int
  | ShipsMove "ship list"

text \<open>What a handler returns beside the state and the flag.\<close>

datatype extra =
    WinnerIs "socket_id option"
  | DrawIs bool
  | WinningLine "(int \<times> int) list"
  | CompletedBoxes "(int \<times> int) list"
  | BoxesCompleted bool
  | MatchedPair
  | NoMatch
  | HitMine
  | Captured "(int \<times> int \<times> checker option) option"
  | PhaseIs phase
  | ShotHit bool
  | SunkShip "ship option"
  | TurnSkipped

text \<open>The returned object \<open>{ gameState, valid, ... }\<close>. \<open>cancelled\<close> is not part of
  it: it lists the handles the handler passed to \<open>clearTimeout\<close>, for the caller to
  apply to the pending timeouts.\<close>

record result =
  resultState :: gameState
  valid :: bool
  extras :: "extra list"
  cancelled :: "handle list"

definition rejected :: "gameState \<Rightarrow> handle list \<Rightarrow> result outcome" where
  "rejected gs hs = Returns \<lparr>resultState = gs, valid = False, extras = [], cancelled = hs\<rparr>"

definition accepted :: "gameState \<Rightarrow> extra list \<Rightarrow> handle list \<Rightarrow> result outcome" where
  "accepted gs xs hs = Returns \<lparr>resultState = gs, valid = True, extras = xs, cancelled = hs\<rparr>"

section \<open>Steps every handler shares\<close>

text \<open>\<open>if (gameState.timer) { clearTimeout(gameState.timer); gameState.timer = null; }\<close>\<close>

definition clearTimer :: "gameState \<Rightarrow> gameState \<times> handle list" where
  "clearTimer gs =
     (case timer gs of None \<Rightarrow> (gs, []) | Some h \<Rightarrow> (gs\<lparr>timer := None\<rparr>, [h]))"

definition playerIndexOf :: "gameState \<Rightarrow> socket_id \<Rightarrow> int" where
  "playerIndexOf gs playerId = findIndex (\<lambda>p. player_id p = playerId) (players gs)"

text \<open>\<open>gameState.players[1 - currentIndex].id\<close>: throws when there is no such player.\<close>

definition otherPlayerId :: "gameState \<Rightarrow> socket_id \<Rightarrow> socket_id outcome" where
  "otherPlayerId gs playerId =
     (case at (players gs) (1 - playerIndexOf gs playerId) of
        None \<Rightarrow> Throws
      | Some p \<Rightarrow> Returns (player_id p))"

definition switchTurns :: "gameState \<Rightarrow> socket_id \<Rightarrow> gameState outcome" where
  "switchTurns gs playerId =
     andThen (otherPlayerId gs playerId) (\<lambda>next. Returns (gs\<lparr>currentPlayer := next\<rparr>))"

section \<open>tictactoe\<close>

definition winPatterns :: "int list list" where
  "winPatterns = [[0,1,2], [3,4,5], [6,7,8], [0,3,6], [1,4,7], [2,5,8], [0,4,8], [2,4,6]]"

definition processTicTacToeMove :: "gameState \<Rightarrow> move \<Rightarrow> socket_id \<Rightarrow> result outcome" where
  "processTicTacToeMove gs mv playerId =
     (if currentPlayer gs \<noteq> playerId then rejected gs []
      else case (board gs, mv) of
        (TicTacToeBoard b, IndexMove i) \<Rightarrow>
          if at b i \<noteq> Some None then rejected gs []
          else if gameOver gs then rejected gs []
          else
            (case clearTimer gs of (gs1, hs) \<Rightarrow>
              let symbol = (if playerIndexOf gs1 playerId = 0 then MarkX else MarkO) in
              andThen (put b i (Some symbol)) (\<lambda>b'.
                let gs2 = gs1\<lparr>board := TicTacToeBoard b', firstMoveMade := True\<rparr> in
                if list_ex (list_all (\<lambda>k. at b' k = Some (Some symbol))) winPatterns
                then accepted (gs2\<lparr>winner := Some playerId, gameOver := True\<rparr>)
                       [WinnerIs (Some playerId)] hs
                else if list_all (\<lambda>c. c \<noteq> None) b'
                then accepted (gs2\<lparr>gameOver := True\<rparr>) [DrawIs True] hs
                else andThen (switchTurns gs2 playerId) (\<lambda>gs3. accepted gs3 [] hs)))
      | _ \<Rightarrow> Untyped)"

section \<open>connect4\<close>

text \<open>The count of cells holding \<open>symbol\<close> at steps \<open>i = 1, 2, ...\<close> from (row, col) in
  direction (dr, dc), stopped at the first cell that is off the \<open>rows \<times> cols\<close> grid or
  holds something else. connect4 walks 3 steps on 6 by 7, gomoku 4 steps on 15 by 15.\<close>

fun runLength :: "int \<Rightarrow> int \<Rightarrow> 'a option list list \<Rightarrow> 'a \<Rightarrow> int \<Rightarrow> int \<Rightarrow> int \<Rightarrow> int \<Rightarrow>
    int list \<Rightarrow> (int \<times> int) list outcome" where
  "runLength rows cols b symbol row col dr dc [] = Returns []"
| "runLength rows cols b symbol row col dr dc (i # is) =
     (let newRow = row + dr * i; newCol = col + dc * i in
      if newRow \<ge> 0 \<and> newRow < rows \<and> newCol \<ge> 0 \<and> newCol < cols
      then andThen (at2 b newRow newCol) (\<lambda>c.
             if c = Some (Some symbol)
             then andThen (runLength rows cols b symbol row col dr dc is)
                    (\<lambda>ps. Returns ((newRow, newCol) # ps))
             else Returns [])
      else Returns [])"

definition directions :: "(int \<times> int) list" where
  "directions = [(0, 1), (1, 0), (1, 1), (1, -1)]"

fun lineOfAtLeast :: "int \<Rightarrow> int \<Rightarrow> int list \<Rightarrow> nat \<Rightarrow> 'a option list list \<Rightarrow> int \<Rightarrow> int \<Rightarrow> 'a \<Rightarrow>
    (int \<times> int) list \<Rightarrow> (int \<times> int) list option outcome" where
  "lineOfAtLeast rows cols steps n b row col symbol [] = Returns None"
| "lineOfAtLeast rows cols steps n b row col symbol ((dr, dc) # ds) =
     andThen (runLength rows cols b symbol row col dr dc steps) (\<lambda>fwd.
     andThen (runLength rows cols b symbol row col (- dr) (- dc) steps) (\<lambda>bwd.
       let line = rev bwd @ [(row, col)] @ fwd in
       if length line \<ge> n then Returns (Some line)
       else lineOfAtLeast rows cols steps n b row col symbol ds))"

definition checkConnect4Winner :: "disc option list list \<Rightarrow> int \<Rightarrow> int \<Rightarrow> disc \<Rightarrow> bool outcome" where
  "checkConnect4Winner b row col symbol =
     andThen (lineOfAtLeast 6 7 [1, 2, 3] 4 b row col symbol directions)
       (\<lambda>l. Returns (l \<noteq> None))"

text \<open>\<open>for (let r = 5; r >= 0; r--) if (board[r][col] === null) { row = r; break; }\<close>\<close>

fun lowestEmptyRow :: "disc option list list \<Rightarrow> int \<Rightarrow> int list \<Rightarrow> int outcome" where
  "lowestEmptyRow b col [] = Returns (-1)"
| "lowestEmptyRow b col (r # rs) =
     andThen (at2 b r col) (\<lambda>c.
       if c = Some None then Returns r else lowestEmptyRow b col rs)"

definition processConnect4Move :: "gameState \<Rightarrow> move \<Rightarrow> socket_id \<Rightarrow> result outcome" where
  "processConnect4Move gs mv playerId =
     (if currentPlayer gs \<noteq> playerId then rejected gs []
      else case (board gs, mv) of
        (Connect4Board b, ColumnMove col) \<Rightarrow>
          let symbol = (if playerIndexOf gs playerId = 0 then DiscR else DiscY) in
          andThen (lowestEmptyRow b col [5, 4, 3, 2, 1, 0]) (\<lambda>row.
            if row = -1 then rejected gs []
            else
              andThen (put2 b row col (Some symbol)) (\<lambda>b'.
                let gs1 = gs\<lparr>board := Connect4Board b'\<rparr> in
                andThen (checkConnect4Winner b' row col symbol) (\<lambda>won.
                  if won
                  then accepted (gs1\<lparr>winner := Some playerId, gameOver := True\<rparr>)
                         [WinnerIs (Some playerId)] []
                  else andThen (switchTurns gs1 playerId) (\<lambda>gs2. accepted gs2 [] []))))
      | _ \<Rightarrow> Untyped)"

section \<open>gomoku\<close>

text \<open>JavaScript's \<open>%\<close> takes the sign of the dividend.\<close>

definition js_rem :: "int \<Rightarrow> int \<Rightarrow> int" where
  "js_rem a b = (if a < 0 then - ((- a) mod b) else a mod b)"

definition checkGomokuWinner :: "stone option list list \<Rightarrow> int \<Rightarrow> int \<Rightarrow> stone \<Rightarrow> bool outcome" where
  "checkGomokuWinner b row col symbol =
     andThen (lineOfAtLeast 15 15 [1, 2, 3, 4] 5 b row col symbol directions)
       (\<lambda>l. Returns (l \<noteq> None))"

definition findWinningLine ::
    "stone option list list \<Rightarrow> int \<Rightarrow> int \<Rightarrow> stone \<Rightarrow> (int \<times> int) list outcome" where
  "findWinningLine b row col symbol =
     andThen (lineOfAtLeast 15 15 [1, 2, 3, 4] 5 b row col symbol directions)
       (\<lambda>l. Returns (case l of None \<Rightarrow> [] | Some ps \<Rightarrow> take 5 ps))"

definition processGomokuMove :: "gameState \<Rightarrow> move \<Rightarrow> socket_id \<Rightarrow> result outcome" where
  "processGomokuMove gs mv playerId =
     (if currentPlayer gs \<noteq> playerId \<or> gameOver gs then rejected gs []
      else case clearTimer gs of (gs1, hs) \<Rightarrow>
       (case (board gs1, mv) of
        (GomokuBoard b, IndexMove index) \<Rightarrow>
          let row = index div 15; col = js_rem index 15 in
          andThen (at2 b row col) (\<lambda>c.
            if c \<noteq> Some None then rejected gs1 hs
            else
              let symbol = (if playerIndexOf gs1 playerId = 0 then Filled else Hollow) in
              andThen (put2 b row col (Some symbol)) (\<lambda>b'.
                let gs2 = gs1\<lparr>board := GomokuBoard b', firstMoveMade := True\<rparr> in
                andThen (checkGomokuWinner b' row col symbol) (\<lambda>won.
                  if won
                  then andThen (findWinningLine b' row col symbol) (\<lambda>line.
                         accepted (gs2\<lparr>winner := Some playerId, gameOver := True\<rparr>)
                           [WinnerIs (Some playerId), WinningLine line] hs)
                  else if list_all (list_all (\<lambda>c. c \<noteq> None)) b'
                  then accepted (gs2\<lparr>gameOver := True\<rparr>) [DrawIs True] hs
                  else andThen (switchTurns gs2 playerId) (\<lambda>gs3. accepted gs3 [] hs))))
      | _ \<Rightarrow> Untyped))"

section \<open>dotsandboxes\<close>

text \<open>\<open>row >= 0 && row < lines.length && col >= 0 && col < lines[row].length &&
  !lines[row][col]\<close>\<close>

definition lineFree :: "bool list list \<Rightarrow> int \<Rightarrow> int \<Rightarrow> bool" where
  "lineFree ls row col =
     (case at ls row of
        None \<Rightarrow> False
      | Some r \<Rightarrow> (case at r col of None \<Rightarrow> False | Some v \<Rightarrow> \<not> v))"

definition placeLine :: "dotsBoard \<Rightarrow> string \<Rightarrow> int \<Rightarrow> int \<Rightarrow> dotsBoard option outcome" where
  "placeLine d type row col =
     (if type = ''horizontal'' then
        (if lineFree (horizontalLines d) row col
         then andThen (put2 (horizontalLines d) row col True)
                (\<lambda>ls. Returns (Some (d\<lparr>horizontalLines := ls\<rparr>)))
         else Returns None)
      else if type = ''vertical'' then
        (if lineFree (verticalLines d) row col
         then andThen (put2 (verticalLines d) row col True)
                (\<lambda>ls. Returns (Some (d\<lparr>verticalLines := ls\<rparr>)))
         else Returns None)
      else Returns None)"

definition boxGrid :: "(int \<times> int) list" where
  "boxGrid = [(0,0), (0,1), (0,2), (1,0), (1,1), (1,2), (2,0), (2,1), (2,2)]"

text \<open>The double loop of \<open>checkCompletedBoxes\<close> over the boxes still to visit: the board
  with the newly closed boxes claimed, and their coordinates.\<close>

fun claimBoxes :: "boxOwner \<Rightarrow> dotsBoard \<Rightarrow> (int \<times> int) list \<Rightarrow>
    (dotsBoard \<times> (int \<times> int) list) outcome" where
  "claimBoxes playerSymbol d [] = Returns (d, [])"
| "claimBoxes playerSymbol d ((row, col) # rest) =
     andThen (at2 (boxes d) row col) (\<lambda>owner.
       if owner \<noteq> Some None then claimBoxes playerSymbol d rest
       else
         andThen (at2 (horizontalLines d) row col) (\<lambda>topLine.
         andThen (at2 (horizontalLines d) (row + 1) col) (\<lambda>bottomLine.
         andThen (at2 (verticalLines d) row col) (\<lambda>leftLine.
         andThen (at2 (verticalLines d) row (col + 1)) (\<lambda>rightLine.
           if topLine = Some True \<and> bottomLine = Some True \<and>
              leftLine = Some True \<and> rightLine = Some True
           then andThen (put2 (boxes d) row col (Some playerSymbol)) (\<lambda>bs.
                  andThen (claimBoxes playerSymbol (d\<lparr>boxes := bs\<rparr>) rest)
                    (\<lambda>r. Returns (fst r, (row, col) # snd r)))
           else claimBoxes playerSymbol d rest)))))"

definition checkCompletedBoxes :: "gameState \<Rightarrow> dotsBoard \<Rightarrow> socket_id \<Rightarrow>
    (dotsBoard \<times> (int \<times> int) list) outcome" where
  "checkCompletedBoxes gs d playerId =
     claimBoxes (if playerIndexOf gs playerId = 0 then P1 else P2) d boxGrid"

definition addScore :: "lineScores \<Rightarrow> bool \<Rightarrow> int \<Rightarrow> lineScores" where
  "addScore s first n =
     (if first then s\<lparr>player1 := player1 s + n\<rparr> else s\<lparr>player2 := player2 s + n\<rparr>)"

text \<open>The end of \<open>processDotsAndBoxesMove\<close>: \<open>if (completedBoxes >= totalBoxes) ...\<close>\<close>

definition dotsGameOver :: "gameState \<Rightarrow> dotsBoard \<Rightarrow> gameState outcome" where
  "dotsGameOver gs d =
     (if completedBoxes d \<ge> totalBoxes d then
        (let gs1 = gs\<lparr>gameOver := True\<rparr> in
         if player1 (scores d) > player2 (scores d)
         then (case at (players gs1) 0 of
                 None \<Rightarrow> Throws
               | Some p \<Rightarrow> Returns (gs1\<lparr>winner := Some (player_id p)\<rparr>))
         else if player2 (scores d) > player1 (scores d)
         then (case at (players gs1) 1 of
                 None \<Rightarrow> Throws
               | Some p \<Rightarrow> Returns (gs1\<lparr>winner := Some (player_id p)\<rparr>))
         else Returns (gs1\<lparr>draw := True\<rparr>))
      else Returns gs)"

definition processDotsAndBoxesMove :: "gameState \<Rightarrow> move \<Rightarrow> socket_id \<Rightarrow> result outcome" where
  "processDotsAndBoxesMove gs mv playerId =
     (if currentPlayer gs \<noteq> playerId \<or> gameOver gs then rejected gs []
      else case clearTimer gs of (gs1, hs) \<Rightarrow>
       (case (board gs1, mv) of
        (DotsBoard d, LineMove type row col) \<Rightarrow>
          andThen (placeLine d type row col) (\<lambda>placed.
            case placed of
              None \<Rightarrow> rejected gs1 hs
            | Some d1 \<Rightarrow>
                let gs2 = gs1\<lparr>board := DotsBoard d1, firstMoveMade := True\<rparr> in
                andThen (checkCompletedBoxes gs2 d1 playerId) (\<lambda>claimed.
                  let d2 = fst claimed; completed = snd claimed;
                      n = int (length completed);
                      d3 = (if completed \<noteq> []
                            then d2\<lparr>scores := addScore (scores d2) (playerIndexOf gs2 playerId = 0) n,
                                    completedBoxes := completedBoxes d2 + n\<rparr>
                            else d2);
                      gs3 = gs2\<lparr>board := DotsBoard d3\<rparr>
                  in andThen (if completed \<noteq> [] then Returns gs3 else switchTurns gs3 playerId)
                      (\<lambda>gs4. andThen (dotsGameOver gs4 d3) (\<lambda>gs5.
                         accepted gs5
                           [CompletedBoxes completed, BoxesCompleted (completed \<noteq> []),
                            WinnerIs (winner gs5), DrawIs (draw gs5)] hs))))
      | _ \<Rightarrow> Untyped))"

section \<open>ludo\<close>

datatype playerKey = Player1 | Player2

definition ludoPlayerOf :: "ludoBoard \<Rightarrow> playerKey \<Rightarrow> ludoPlayer" where
  "ludoPlayerOf lb k = (case k of Player1 \<Rightarrow> ludo_player1 lb | Player2 \<Rightarrow> ludo_player2 lb)"

definition setLudoPlayer :: "ludoBoard \<Rightarrow> playerKey \<Rightarrow> ludoPlayer \<Rightarrow> ludoBoard" where
  "setLudoPlayer lb k p =
     (case k of Player1 \<Rightarrow> lb\<lparr>ludo_player1 := p\<rparr> | Player2 \<Rightarrow> lb\<lparr>ludo_player2 := p\<rparr>)"

text \<open>The loop of \<open>canPlayerMove\<close> returns true at the first piece that can start with a
  6 or advance without overshooting 57.\<close>

definition canPlayerMove :: "ludoBoard \<Rightarrow> playerKey \<Rightarrow> int \<Rightarrow> bool" where
  "canPlayerMove lb k dice =
     list_ex (\<lambda>currentPosition.
        (currentPosition = 0 \<and> dice = 6) \<or> (currentPosition > 0 \<and> currentPosition + dice \<le> 57))
       (pieces (ludoPlayerOf lb k))"

text \<open>\<open>rnd\<close> is the random source: \<open>Math.floor(Math.random() * 6)\<close> is \<open>rnd mod 6\<close>.\<close>

definition rollDice :: "gameState \<Rightarrow> ludoBoard \<Rightarrow> playerKey \<Rightarrow> socket_id \<Rightarrow> nat \<Rightarrow>
    handle list \<Rightarrow> result outcome" where
  "rollDice gs lb k playerId rnd hs =
     (let dice = int (rnd mod 6) + 1;
          lb1 = lb\<lparr>diceValue := dice, diceRolled := True\<rparr>;
          gs1 = gs\<lparr>board := LudoBoard lb1, firstMoveMade := True\<rparr>
      in if \<not> canPlayerMove lb1 k dice
         then andThen (switchTurns (gs1\<lparr>board := LudoBoard (lb1\<lparr>diceRolled := False\<rparr>)\<rparr>) playerId)
                (\<lambda>gs2. accepted gs2 [] hs)
         else accepted gs1 [] hs)"

definition movePiece :: "gameState \<Rightarrow> ludoBoard \<Rightarrow> playerKey \<Rightarrow> socket_id \<Rightarrow> int \<Rightarrow>
    handle list \<Rightarrow> result outcome" where
  "movePiece gs lb k playerId pieceIndex hs =
     (let me = ludoPlayerOf lb k in
      case at (pieces me) pieceIndex of
        None \<Rightarrow> rejected gs hs
      | Some currentPosition \<Rightarrow>
          if currentPosition = 0 \<and> diceValue lb \<noteq> 6 then rejected gs hs
          else
            let start = (if currentPosition = 0 \<and> diceValue lb = 6 then 1
                         else currentPosition + diceValue lb);
                newPosition = (if start \<ge> 57 then 57 else start);
                home' = (if start \<ge> 57 then home me + 1 else home me)
            in andThen (put (pieces me) pieceIndex newPosition) (\<lambda>ps.
                 let lb1 = (setLudoPlayer lb k \<lparr>pieces = ps, home = home'\<rparr>)\<lparr>diceRolled := False\<rparr>;
                     gs1 = gs\<lparr>board := LudoBoard lb1\<rparr>
                 in if home' \<ge> 2
                    then accepted (gs1\<lparr>winner := Some playerId, gameOver := True\<rparr>)
                           [WinnerIs (Some playerId)] hs
                    else if diceValue lb \<noteq> 6
                    then andThen (switchTurns gs1 playerId) (\<lambda>gs2. accepted gs2 [] hs)
                    else accepted gs1 [] hs))"

definition processLudoMove :: "gameState \<Rightarrow> move \<Rightarrow> socket_id \<Rightarrow> nat \<Rightarrow> result outcome" where
  "processLudoMove gs mv playerId rnd =
     (if currentPlayer gs \<noteq> playerId \<or> gameOver gs then rejected gs []
      else case clearTimer gs of (gs1, hs) \<Rightarrow>
       (case (board gs1, mv) of
        (LudoBoard lb, LudoMove action pieceIndex) \<Rightarrow>
          let k = (if playerIndexOf gs1 playerId = 0 then Player1 else Player2) in
          if action = ''rollDice'' then rollDice gs1 lb k playerId rnd hs
          else if action = ''movePiece'' \<and> diceRolled lb
          then movePiece gs1 lb k playerId pieceIndex hs
          else rejected gs1 hs
      | _ \<Rightarrow> Untyped))"

section \<open>minichess\<close>

text \<open>\<open>piece === piece.toUpperCase()\<close> and \<open>piece.toLowerCase()\<close>\<close>

definition isUpper :: "chessman \<Rightarrow> bool" where
  "isUpper piece = (case piece of Upper _ \<Rightarrow> True | Lower _ \<Rightarrow> False)"

definition kindOf :: "chessman \<Rightarrow> kind" where
  "kindOf piece = (case piece of Upper k \<Rightarrow> k | Lower k \<Rightarrow> k)"

text \<open>The loop of \<open>isPathClear\<close>, from the first square after the origin. It is only called
  along a rank or a file, where it visits the \<open>n\<close> squares strictly between origin and
  target, \<open>n\<close> being the distance less one.\<close>

fun pathClearFrom :: "chessman option list list \<Rightarrow> int \<Rightarrow> int \<Rightarrow> int \<Rightarrow> int \<Rightarrow> nat \<Rightarrow>
    bool outcome" where
  "pathClearFrom b currentRow currentCol stepRow stepCol 0 = Returns True"
| "pathClearFrom b currentRow currentCol stepRow stepCol (Suc n) =
     andThen (at2 b currentRow currentCol) (\<lambda>c.
       if c \<noteq> Some None then Returns False
       else pathClearFrom b (currentRow + stepRow) (currentCol + stepCol) stepRow stepCol n)"

definition isPathClear :: "chessman option list list \<Rightarrow> int \<Rightarrow> int \<Rightarrow> int \<Rightarrow> int \<Rightarrow> bool outcome" where
  "isPathClear b fromRow fromCol toRow toCol =
     (let deltaRow = toRow - fromRow; deltaCol = toCol - fromCol;
          stepRow = sgn deltaRow; stepCol = sgn deltaCol
      in pathClearFrom b (fromRow + stepRow) (fromCol + stepCol) stepRow stepCol
           (nat (max \<bar>deltaRow\<bar> \<bar>deltaCol\<bar>) - 1))"

text \<open>A truthy cell: neither \<open>null\<close> nor \<open>undefined\<close>.\<close>

definition truthy :: "'a option option \<Rightarrow> 'a option" where
  "truthy c = (case c of Some (Some v) \<Rightarrow> Some v | _ \<Rightarrow> None)"

definition isValidChessMove :: "chessman option list list \<Rightarrow> int \<Rightarrow> int \<Rightarrow> int \<Rightarrow> int \<Rightarrow>
    bool outcome" where
  "isValidChessMove b fromRow fromCol toRow toCol =
     andThen (at2 b fromRow fromCol) (\<lambda>src.
       case truthy src of
         None \<Rightarrow> Throws
       | Some piece \<Rightarrow>
           let deltaRow = toRow - fromRow; deltaCol = toCol - fromCol in
           andThen (at2 b toRow toCol) (\<lambda>tgt.
             let targetPiece = truthy tgt in
             if (case targetPiece of None \<Rightarrow> False | Some t \<Rightarrow> isUpper piece = isUpper t)
             then Returns False
             else
               (case kindOf piece of
                  Pawn \<Rightarrow>
                    let direction = (if isUpper piece then 1 else -1) in
                    if deltaCol = 0 \<and> targetPiece = None then Returns (deltaRow = direction)
                    else if \<bar>deltaCol\<bar> = 1 \<and> targetPiece \<noteq> None
                    then Returns (deltaRow = direction)
                    else Returns False
                | Rook \<Rightarrow>
                    if deltaRow = 0 \<or> deltaCol = 0
                    then isPathClear b fromRow fromCol toRow toCol
                    else Returns False
                | Knight \<Rightarrow>
                    Returns ((\<bar>deltaRow\<bar> = 2 \<and> \<bar>deltaCol\<bar> = 1) \<or> (\<bar>deltaRow\<bar> = 1 \<and> \<bar>deltaCol\<bar> = 2))
                | King \<Rightarrow> Returns (\<bar>deltaRow\<bar> \<le> 1 \<and> \<bar>deltaCol\<bar> \<le> 1))))"

definition processMiniChessMove :: "gameState \<Rightarrow> move \<Rightarrow> socket_id \<Rightarrow> result outcome" where
  "processMiniChessMove gs mv playerId =
     (if currentPlayer gs \<noteq> playerId \<or> gameOver gs then rejected gs []
      else case clearTimer gs of (gs1, hs) \<Rightarrow>
       (case (board gs1, mv) of
        (ChessBoard b, FromToMove fromRow fromCol toRow toCol) \<Rightarrow>
          if fromRow < 0 \<or> fromRow \<ge> 5 \<or> fromCol < 0 \<or> fromCol \<ge> 5 \<or>
             toRow < 0 \<or> toRow \<ge> 5 \<or> toCol < 0 \<or> toCol \<ge> 5
          then rejected gs1 hs
          else
            andThen (at2 b fromRow fromCol) (\<lambda>src.
            andThen (at2 b toRow toCol) (\<lambda>tgt.
              case truthy src of
                None \<Rightarrow> rejected gs1 hs
              | Some piece \<Rightarrow>
                  if (playerIndexOf gs1 playerId = 0) \<noteq> isUpper piece then rejected gs1 hs
                  else
                    andThen (isValidChessMove b fromRow fromCol toRow toCol) (\<lambda>ok.
                      if \<not> ok then rejected gs1 hs
                      else
                        andThen (put2 b toRow toCol (Some piece)) (\<lambda>b1.
                        andThen (put2 b1 fromRow fromCol None) (\<lambda>b2.
                          let gs2 = gs1\<lparr>firstMoveMade := True, board := ChessBoard b2\<rparr> in
                          if (case truthy tgt of None \<Rightarrow> False | Some t \<Rightarrow> kindOf t = King)
                          then accepted (gs2\<lparr>winner := Some playerId, gameOver := True\<rparr>)
                                 [WinnerIs (Some playerId)] hs
                          else andThen (switchTurns gs2 playerId)
                                 (\<lambda>gs3. accepted gs3 [] hs))))))
      | _ \<Rightarrow> Untyped))"

section \<open>Scores kept under a built key\<close>

text \<open>\<open>scores[key] || 0\<close>, and \<open>if (!scores[key]) scores[key] = 0; scores[key]++\<close>\<close>

definition scoreOf :: "keyedScores \<Rightarrow> int \<Rightarrow> int" where
  "scoreOf s k = (case map_of s k of None \<Rightarrow> 0 | Some v \<Rightarrow> v)"

definition bumpScore :: "keyedScores \<Rightarrow> int \<Rightarrow> keyedScores" where
  "bumpScore s k = AList.update k (scoreOf s k + 1) s"

text \<open>The end of a memorymatch or minesweeper game: the higher score wins, a tie is a
  draw.\<close>

definition scoreWinner :: "gameState \<Rightarrow> keyedScores \<Rightarrow> gameState outcome" where
  "scoreWinner gs s =
     (let gs1 = gs\<lparr>gameOver := True\<rparr>; player1Score = scoreOf s 1; player2Score = scoreOf s 2 in
      if player1Score > player2Score
      then (case at (players gs1) 0 of
              None \<Rightarrow> Throws
            | Some p \<Rightarrow> Returns (gs1\<lparr>winner := Some (player_id p)\<rparr>))
      else if player2Score > player1Score
      then (case at (players gs1) 1 of
              None \<Rightarrow> Throws
            | Some p \<Rightarrow> Returns (gs1\<lparr>winner := Some (player_id p)\<rparr>))
      else Returns (gs1\<lparr>draw := True\<rparr>))"

section \<open>memorymatch\<close>

text \<open>The branch taken once two cards are pending: \<open>cs\<close> are the cards and \<open>fl\<close> the two
  pending indices, after the flip.\<close>

definition secondFlip :: "gameState \<Rightarrow> memoryBoard \<Rightarrow> socket_id \<Rightarrow> handle list \<Rightarrow> result outcome" where
  "secondFlip gs m playerId hs =
     (case (at (cards m) (flippedCards m ! 0), at (cards m) (flippedCards m ! 1)) of
        (Some firstCard, Some secondCard) \<Rightarrow>
          if cardValue firstCard = cardValue secondCard then
            andThen (put (cards m) (flippedCards m ! 0) (firstCard\<lparr>matched := True\<rparr>)) (\<lambda>cs1.
            andThen (case at cs1 (flippedCards m ! 1) of
                       None \<Rightarrow> Throws
                     | Some c \<Rightarrow> put cs1 (flippedCards m ! 1) (c\<lparr>matched := True\<rparr>)) (\<lambda>cs2.
              let m1 = m\<lparr>cards := cs2,
                         memoryScores := bumpScore (memoryScores m) (playerIndexOf gs playerId + 1),
                         flippedCards := []\<rparr>;
                  gs1 = gs\<lparr>board := MemoryBoard m1\<rparr>
              in andThen (if list_all matched cs2 then scoreWinner gs1 (memoryScores m1)
                          else Returns gs1)
                   (\<lambda>gs2. accepted gs2 [MatchedPair] hs)))
          else accepted gs [NoMatch] hs
      | _ \<Rightarrow> Throws)"

definition processMemoryMatchMove :: "gameState \<Rightarrow> move \<Rightarrow> socket_id \<Rightarrow> result outcome" where
  "processMemoryMatchMove gs mv playerId =
     (if currentPlayer gs \<noteq> playerId \<or> gameOver gs then rejected gs []
      else case clearTimer gs of (gs1, hs) \<Rightarrow>
       (case (board gs1, mv) of
        (MemoryBoard m, CardMove cardIndex) \<Rightarrow>
          (case at (cards m) cardIndex of
             None \<Rightarrow> rejected gs1 hs
           | Some c \<Rightarrow>
               if flipped c \<or> matched c then rejected gs1 hs
               else
                 andThen (put (cards m) cardIndex (c\<lparr>flipped := True\<rparr>)) (\<lambda>cs.
                   let m1 = m\<lparr>cards := cs, flippedCards := flippedCards m @ [cardIndex]\<rparr>;
                       gs2 = gs1\<lparr>firstMoveMade := True, board := MemoryBoard m1\<rparr>
                   in if length (flippedCards m1) = 2 then secondFlip gs2 m1 playerId hs
                      else accepted gs2 [] hs))
      | _ \<Rightarrow> Untyped))"

section \<open>minesweeper\<close>

definition neighbours :: "(int \<times> int) list" where
  "neighbours = [(-1,-1), (-1,0), (-1,1), (0,-1), (0,1), (1,-1), (1,0), (1,1)]"

fun countMines :: "mineCell list list \<Rightarrow> int \<Rightarrow> int \<Rightarrow> (int \<times> int) list \<Rightarrow> int outcome" where
  "countMines b row col [] = Returns 0"
| "countMines b row col ((dr, dc) # ds) =
     (let newRow = row + dr; newCol = col + dc in
      if newRow \<ge> 0 \<and> newRow < 8 \<and> newCol \<ge> 0 \<and> newCol < 8
      then andThen (at2 b newRow newCol) (\<lambda>c.
             case c of
               None \<Rightarrow> Throws
             | Some cell \<Rightarrow>
                 andThen (countMines b row col ds)
                   (\<lambda>n. Returns (if isMine cell then n + 1 else n)))
      else countMines b row col ds)"

definition calculateNeighborMines :: "mineCell list list \<Rightarrow> int \<Rightarrow> int \<Rightarrow> int outcome" where
  "calculateNeighborMines b row col = countMines b row col neighbours"

text \<open>The part of \<open>processMinesweeperMove\<close> after a safe cell is revealed.\<close>

definition revealSafe :: "gameState \<Rightarrow> mineBoard \<Rightarrow> mineCell \<Rightarrow> int \<Rightarrow> int \<Rightarrow> socket_id \<Rightarrow>
    handle list \<Rightarrow> result outcome" where
  "revealSafe gs mb cell row col playerId hs =
     andThen (calculateNeighborMines (cells mb) row col) (\<lambda>n.
     andThen (put2 (cells mb) row col (cell\<lparr>neighborCount := n\<rparr>)) (\<lambda>b2.
       let mb1 = \<lparr>cells = b2,
                  mineScores = bumpScore (mineScores mb) (playerIndexOf gs playerId + 1)\<rparr>;
           gs1 = gs\<lparr>board := MineBoard mb1\<rparr>;
           revealedSafeCells = length (filter (\<lambda>c. isRevealed c \<and> \<not> isMine c) (concat b2))
       in andThen (if revealedSafeCells = 64 - 10 then scoreWinner gs1 (mineScores mb1)
                   else switchTurns gs1 playerId)
            (\<lambda>gs2. accepted gs2 [] hs)))"

definition processMinesweeperMove :: "gameState \<Rightarrow> move \<Rightarrow> socket_id \<Rightarrow> result outcome" where
  "processMinesweeperMove gs mv playerId =
     (if currentPlayer gs \<noteq> playerId \<or> gameOver gs then rejected gs []
      else case clearTimer gs of (gs1, hs) \<Rightarrow>
       (case (board gs1, mv) of
        (MineBoard mb, CellMove row col) \<Rightarrow>
          andThen (at2 (cells mb) row col) (\<lambda>c.
            case c of
              None \<Rightarrow> Throws
            | Some cell \<Rightarrow>
                if isRevealed cell then rejected gs1 hs
                else
                  let cell1 = cell\<lparr>isRevealed := True, revealedBy := Some playerId\<rparr> in
                  andThen (put2 (cells mb) row col cell1) (\<lambda>b1.
                    let mb1 = mb\<lparr>cells := b1\<rparr>;
                        gs2 = gs1\<lparr>firstMoveMade := True, board := MineBoard mb1\<rparr>
                    in if isMine cell1
                       then andThen (otherPlayerId gs2 playerId) (\<lambda>w.
                              accepted (gs2\<lparr>gameOver := True, winner := Some w\<rparr>)
                                [HitMine, WinnerIs (Some w)] hs)
                       else revealSafe gs2 mb1 cell1 row col playerId hs))
      | _ \<Rightarrow> Untyped))"

section \<open>checkers\<close>

text \<open>\<open>piece.includes('red')\<close>, \<open>piece.includes('black')\<close> and \<open>piece.includes('king')\<close>\<close>

definition colourOf :: "checker \<Rightarrow> colour" where
  "colourOf piece = (case piece of Man c \<Rightarrow> c | Crowned c \<Rightarrow> c)"

definition isKing :: "checker \<Rightarrow> bool" where
  "isKing piece = (case piece of Man _ \<Rightarrow> False | Crowned _ \<Rightarrow> True)"

definition opponentOf :: "colour \<Rightarrow> colour" where
  "opponentOf c = (if c = Red then Black else Red)"

definition isValidCheckersMove :: "checker option list list \<Rightarrow> int \<Rightarrow> int \<Rightarrow> int \<Rightarrow> int \<Rightarrow>
    colour \<Rightarrow> bool outcome" where
  "isValidCheckersMove b fromRow fromCol toRow toCol playerColor =
     (let deltaRow = toRow - fromRow; deltaCol = \<bar>toCol - fromCol\<bar> in
      andThen (at2 b fromRow fromCol) (\<lambda>src.
        if \<bar>deltaRow\<bar> \<noteq> deltaCol then Returns False
        else
          andThen (at2 b toRow toCol) (\<lambda>tgt.
            if tgt \<noteq> Some None then Returns False
            else
              (case truthy src of
                 None \<Rightarrow> Throws
               | Some piece \<Rightarrow>
                   if \<not> isKing piece \<and>
                      ((playerColor = Red \<and> deltaRow > 0) \<or> (playerColor = Black \<and> deltaRow < 0))
                   then Returns False
                   else if \<bar>deltaRow\<bar> = 1 then Returns True
                   else if \<bar>deltaRow\<bar> = 2 then
                     andThen (at2 b (fromRow + deltaRow div 2) (fromCol + (toCol - fromCol) div 2))
                       (\<lambda>mid. case truthy mid of
                                 None \<Rightarrow> Returns False
                               | Some midPiece \<Rightarrow>
                                   Returns (colourOf midPiece = opponentOf playerColor))
                   else Returns False))))"

definition checkForCapture :: "checker option list list \<Rightarrow> int \<Rightarrow> int \<Rightarrow> int \<Rightarrow> int \<Rightarrow>
    (checker option list list \<times> (int \<times> int \<times> checker option) option) outcome" where
  "checkForCapture b fromRow fromCol toRow toCol =
     (if \<bar>toRow - fromRow\<bar> = 2 then
        (let midRow = fromRow + (toRow - fromRow) div 2;
             midCol = fromCol + (toCol - fromCol) div 2 in
         andThen (at2 b midRow midCol) (\<lambda>capturedPiece.
         andThen (put2 b midRow midCol None) (\<lambda>b1.
           Returns (b1, Some (midRow, midCol, truthy capturedPiece)))))
      else Returns (b, None))"

definition processCheckersMove :: "gameState \<Rightarrow> move \<Rightarrow> socket_id \<Rightarrow> result outcome" where
  "processCheckersMove gs mv playerId =
     (if currentPlayer gs \<noteq> playerId \<or> gameOver gs then rejected gs []
      else case clearTimer gs of (gs1, hs) \<Rightarrow>
       (case (board gs1, mv) of
        (CheckersBoard b, FromToMove fromRow fromCol toRow toCol) \<Rightarrow>
          andThen (at2 b fromRow fromCol) (\<lambda>src.
            case truthy src of
              None \<Rightarrow> rejected gs1 hs
            | Some piece \<Rightarrow>
                let playerColor = (if playerIndexOf gs1 playerId = 0 then Red else Black) in
                if colourOf piece \<noteq> playerColor then rejected gs1 hs
                else
                  andThen (isValidCheckersMove b fromRow fromCol toRow toCol playerColor) (\<lambda>ok.
                    if \<not> ok then rejected gs1 hs
                    else
                      andThen (put2 b toRow toCol (Some piece)) (\<lambda>b1.
                      andThen (put2 b1 fromRow fromCol None) (\<lambda>b2.
                      andThen (checkForCapture b2 fromRow fromCol toRow toCol) (\<lambda>cap.
                      andThen (if (playerColor = Red \<and> toRow = 0) \<or> (playerColor = Black \<and> toRow = 7)
                               then put2 (fst cap) toRow toCol (Some (Crowned playerColor))
                               else Returns (fst cap)) (\<lambda>b3.
                        let gs2 = gs1\<lparr>firstMoveMade := True, board := CheckersBoard b3\<rparr>;
                            opponentPieces =
                              filter (\<lambda>c. case c of None \<Rightarrow> False
                                          | Some p \<Rightarrow> colourOf p = opponentOf playerColor)
                                (concat b3)
                        in if opponentPieces = []
                           then accepted (gs2\<lparr>winner := Some playerId, gameOver := True\<rparr>)
                                  [WinnerIs (Some playerId)] hs
                           else andThen (switchTurns gs2 playerId)
                                  (\<lambda>gs3. accepted gs3 [Captured (snd cap)] hs)))))))
      | _ \<Rightarrow> Untyped))"

section \<open>battleship\<close>

text \<open>\<open>ships.length === 5\<close> and the sizes, sorted largest first, are 5, 4, 3, 3, 2.\<close>

definition validateShipPlacement :: "ship list \<Rightarrow> bool" where
  "validateShipPlacement submitted =
     (length submitted = 5 \<and>
      rev (sort (map (\<lambda>s. length (positions s)) submitted)) = [5, 4, 3, 3, 2])"

definition processBattleshipSetup :: "gameState \<Rightarrow> move \<Rightarrow> socket_id \<Rightarrow> result outcome" where
  "processBattleshipSetup gs mv playerId =
     (case (board gs, mv) of
        (BattleshipBoard bb, ShipsMove submitted) \<Rightarrow>
          (case map_of bb playerId of
             None \<Rightarrow> rejected gs []
           | Some playerBoard \<Rightarrow>
               if \<not> validateShipPlacement submitted then rejected gs []
               else
                 let bb1 = AList.update playerId (playerBoard\<lparr>ships := submitted\<rparr>) bb;
                     allPlayersReady =
                       list_all (\<lambda>p. case map_of bb1 (player_id p) of
                                       None \<Rightarrow> False
                                     | Some f \<Rightarrow> length (ships f) > 0) (players gs);
                     gs1 = gs\<lparr>board := BattleshipBoard bb1\<rparr>;
                     gs2 = (if allPlayersReady
                            then gs1\<lparr>phase := Playing, firstMoveMade := True\<rparr> else gs1)
                 in accepted gs2 [PhaseIs (phase gs2)] [])
      | _ \<Rightarrow> Untyped)"

text \<open>Every position of the ship is marked 'hit' in the shots.\<close>

definition allHit :: "shot option list \<Rightarrow> ship \<Rightarrow> bool" where
  "allHit sh s = list_all (\<lambda>pos. at sh (fst pos * 10 + snd pos) = Some (Some Hit)) (positions s)"

definition checkForSunkShip :: "ship list \<Rightarrow> shot option list \<Rightarrow> ship option" where
  "checkForSunkShip fleetShips sh = find (\<lambda>s. allHit sh s \<and> \<not> sunk s) fleetShips"

definition processBattleshipShot :: "gameState \<Rightarrow> move \<Rightarrow> socket_id \<Rightarrow> result outcome" where
  "processBattleshipShot gs mv playerId =
     (if currentPlayer gs \<noteq> playerId \<or> gameOver gs then rejected gs []
      else case clearTimer gs of (gs1, hs) \<Rightarrow>
       (case (board gs1, mv) of
        (BattleshipBoard bb, CellMove row col) \<Rightarrow>
          andThen (otherPlayerId gs1 playerId) (\<lambda>opponentId.
            case map_of bb playerId of
              None \<Rightarrow> Throws
            | Some playerBoard \<Rightarrow>
                let shotIndex = row * 10 + col in
                if at (shots playerBoard) shotIndex \<noteq> Some None then rejected gs1 hs
                else
                  (case map_of bb opponentId of
                     None \<Rightarrow> Throws
                   | Some opponentBoard \<Rightarrow>
                       let hit = list_ex (\<lambda>s. list_ex (\<lambda>pos. pos = (row, col)) (positions s))
                                   (ships opponentBoard) in
                       andThen (put (shots playerBoard) shotIndex (Some (if hit then Hit else Miss)))
                         (\<lambda>shots1.
                           let bb1 = AList.update playerId (playerBoard\<lparr>shots := shots1\<rparr>) bb;
                               gs2 = gs1\<lparr>board := BattleshipBoard bb1\<rparr>;
                               sunkShip = (if hit then checkForSunkShip (ships opponentBoard) shots1
                                           else None)
                           in if hit \<and> list_all (allHit shots1) (ships opponentBoard)
                              then accepted (gs2\<lparr>winner := Some playerId, gameOver := True\<rparr>)
                                     [ShotHit True, SunkShip sunkShip, WinnerIs (Some playerId)] hs
                              else accepted (gs2\<lparr>currentPlayer := opponentId\<rparr>)
                                     [ShotHit hit, SunkShip sunkShip] hs)))
      | _ \<Rightarrow> Untyped))"

text \<open>The file declares \<open>processCheckersMove\<close> and \<open>processBattleshipMove\<close> twice; a later
  function declaration replaces an earlier one, so the stubs that accept every move are
  dead code.\<close>

definition processBattleshipMove :: "gameState \<Rightarrow> move \<Rightarrow> socket_id \<Rightarrow> result outcome" where
  "processBattleshipMove gs mv playerId =
     (if phase gs = Setup then processBattleshipSetup gs mv playerId
      else processBattleshipShot gs mv playerId)"

section \<open>Dispatch\<close>

text \<open>\<open>gameType\<close> is the string the client sent with the move, not the one stored in the
  state. \<open>rnd\<close> is the random source of the ludo dice.\<close>

definition processMove :: "gameState \<Rightarrow> move \<Rightarrow> socket_id \<Rightarrow> string \<Rightarrow> nat \<Rightarrow> result outcome" where
  "processMove gs mv playerId gt rnd =
     (if gt = ''tictactoe'' then processTicTacToeMove gs mv playerId
      else if gt = ''connect4'' then processConnect4Move gs mv playerId
      else if gt = ''checkers'' then processCheckersMove gs mv playerId
      else if gt = ''battleship'' then processBattleshipMove gs mv playerId
      else if gt = ''gomoku'' then processGomokuMove gs mv playerId
      else if gt = ''dotsandboxes'' then processDotsAndBoxesMove gs mv playerId
      else if gt = ''ludo'' then processLudoMove gs mv playerId rnd
      else if gt = ''minichess'' then processMiniChessMove gs mv playerId
      else if gt = ''memorymatch'' then processMemoryMatchMove gs mv playerId
      else if gt = ''minesweeper'' then processMinesweeperMove gs mv playerId
      else rejected gs [])"

section \<open>Initial boards\<close>

definition initializeCheckersBoard :: "checker option list list" where
  "initializeCheckersBoard =
     map (\<lambda>row. map (\<lambda>col.
            if (row + col) mod 2 = 1 \<and> row < 3 then Some (Man Black)
            else if (row + col) mod 2 = 1 \<and> 5 \<le> row then Some (Man Red)
            else None) [0..<8]) [0..<8]"

definition initializeDotsAndBoxes :: dotsBoard where
  "initializeDotsAndBoxes =
     \<lparr>gridSize = 4,
      horizontalLines = replicate 4 (replicate 3 False),
      verticalLines = replicate 3 (replicate 4 False),
      boxes = replicate 3 (replicate 3 None),
      scores = \<lparr>player1 = 0, player2 = 0\<rparr>,
      completedBoxes = 0,
      totalBoxes = 9\<rparr>"

definition initializeLudo :: ludoBoard where
  "initializeLudo =
     \<lparr>ludo_player1 = \<lparr>pieces = [0, 0], home = 0\<rparr>,
      ludo_player2 = \<lparr>pieces = [0, 0], home = 0\<rparr>,
      diceValue = 0,
      diceRolled = False\<rparr>"

definition initializeMiniChess :: "chessman option list list" where
  "initializeMiniChess =
     [[Some (Lower Rook), Some (Lower Knight), Some (Lower King), Some (Lower Knight), Some (Lower Rook)],
      [Some (Lower Pawn), Some (Lower Pawn), Some (Lower Pawn), Some (Lower Pawn), Some (Lower Pawn)],
      [None, None, None, None, None],
      [Some (Upper Pawn), Some (Upper Pawn), Some (Upper Pawn), Some (Upper Pawn), Some (Upper Pawn)],
      [Some (Upper Rook), Some (Upper Knight), Some (Upper King), Some (Upper Knight), Some (Upper Rook)]]"

text \<open>Random draws are a list of naturals, read left to right; a draw \<open>d\<close> stands for
  \<open>Math.floor(Math.random() * n) = d mod n\<close>. A run that needs more draws than the list
  holds has no result.\<close>

fun shuffle :: "int list \<Rightarrow> nat \<Rightarrow> nat list \<Rightarrow> int list option" where
  "shuffle cs 0 ds = Some cs"
| "shuffle cs (Suc i) [] = None"
| "shuffle cs (Suc i) (d # ds) =
     (let j = d mod (Suc i + 1) in shuffle (cs[Suc i := cs ! j, j := cs ! Suc i]) i ds)"

definition initializeMemoryMatch :: "nat list \<Rightarrow> memoryBoard option" where
  "initializeMemoryMatch ds =
     map_option
       (\<lambda>cs. \<lparr>cards = map (\<lambda>v. \<lparr>cardValue = v, flipped = False, matched = False\<rparr>) cs,
              flippedCards = [],
              memoryScores = [(1, 0), (2, 0)]\<rparr>)
       (shuffle [1, 1, 2, 2, 3, 3, 4, 4, 5, 5, 6, 6, 7, 7, 8, 8] 15 ds)"

fun placeMines :: "mineCell list list \<Rightarrow> nat \<Rightarrow> nat list \<Rightarrow> mineCell list list option" where
  "placeMines b minesPlaced [] = (if minesPlaced < 10 then None else Some b)"
| "placeMines b minesPlaced [r] = (if minesPlaced < 10 then None else Some b)"
| "placeMines b minesPlaced (r # c # ds) =
     (if minesPlaced < 10 then
        (let row = r mod 8; col = c mod 8 in
         if \<not> isMine (b ! row ! col)
         then placeMines (b[row := (b ! row)[col := (b ! row ! col)\<lparr>isMine := True\<rparr>]])
                (minesPlaced + 1) ds
         else placeMines b minesPlaced ds)
      else Some b)"

definition initializeMinesweeper :: "nat list \<Rightarrow> mineBoard option" where
  "initializeMinesweeper ds =
     map_option (\<lambda>b. \<lparr>cells = b, mineScores = [(1, 0), (2, 0)]\<rparr>)
       (placeMines
          (replicate 8 (replicate 8
             \<lparr>isMine = False, isRevealed = False, neighborCount = 0, revealedBy = None\<rparr>))
          0 ds)"

section \<open>The server\<close>

text \<open>A room object; its \<open>gameState\<close> property stays \<open>null\<close> and is left out.\<close>

record room =
  code :: room_code
  host :: socket_id
  roomPlayers :: "player list"
  gameSelected :: "string option"

datatype event =
    RoomCreated room_code bool
  | PlayerJoined "player list" room_code
  | RoomJoined room_code bool
  | ErrorMessage string
  | GameSelected string
  | GameUpdate gameState bool "extra list"
  | PlayerLeft "player list"

datatype emission = ToSocket socket_id event | ToRoom room_code event

text \<open>
  \<open>rooms\<close> is the Map of rooms in insertion order, \<open>gameStates\<close> the Map of game states.
  \<open>timeouts\<close> are the pending \<open>setTimeout\<close> calls of \<open>startTurnTimer\<close>: handle, room code
  and seconds. \<open>outbox\<close> collects what was emitted, oldest first.
\<close>

record server =
  rooms :: "(room_code \<times> room) list"
  gameStates :: "room_code \<Rightarrow> gameState option"
  timeouts :: "(handle \<times> room_code \<times> int) list"
  nextHandle :: handle
  outbox :: "emission list"

definition initialServer :: server where
  "initialServer =
     \<lparr>rooms = [], gameStates = (\<lambda>c. None), timeouts = [], nextHandle = 0, outbox = []\<rparr>"

definition emit :: "emission \<Rightarrow> server \<Rightarrow> server" where
  "emit e s = s\<lparr>outbox := outbox s @ [e]\<rparr>"

definition clearTimeout :: "handle \<Rightarrow> (handle \<times> room_code \<times> int) list \<Rightarrow>
    (handle \<times> room_code \<times> int) list" where
  "clearTimeout h ts = filter (\<lambda>t. fst t \<noteq> h) ts"

definition unshare :: "gameState \<Rightarrow> gameState" where
  "unshare gs = gs\<lparr>playersShared := False\<rparr>"

text \<open>\<open>roomCode\<close> is the value of
  \<open>Math.random().toString(36).substring(2, 8).toUpperCase()\<close>. The new room has a new
  player array, so a game state left under the same code no longer shares it.\<close>

definition createRoom :: "socket_id \<Rightarrow> string \<Rightarrow> room_code \<Rightarrow> server \<Rightarrow> server" where
  "createRoom sid playerName roomCode s =
     (let r = \<lparr>code = roomCode, host = sid,
               roomPlayers = [\<lparr>player_id = sid, player_name = playerName, ready = True\<rparr>],
               gameSelected = None\<rparr>
      in emit (ToSocket sid (PlayerJoined (roomPlayers r) roomCode))
           (emit (ToSocket sid (RoomCreated roomCode True))
              (s\<lparr>rooms := AList.update roomCode r (rooms s),
                 gameStates := (gameStates s)
                   (roomCode := map_option unshare (gameStates s roomCode))\<rparr>)))"

definition joinRoom :: "socket_id \<Rightarrow> room_code \<Rightarrow> string \<Rightarrow> server \<Rightarrow> server" where
  "joinRoom sid roomCode playerName s =
     (case map_of (rooms s) roomCode of
        None \<Rightarrow> emit (ToSocket sid (ErrorMessage ''Room not found'')) s
      | Some r \<Rightarrow>
          if length (roomPlayers r) \<ge> 2
          then emit (ToSocket sid (ErrorMessage ''Room is full'')) s
          else
            let p = \<lparr>player_id = sid, player_name = playerName, ready = True\<rparr>;
                r1 = r\<lparr>roomPlayers := roomPlayers r @ [p]\<rparr>
            in emit (ToRoom roomCode (PlayerJoined (roomPlayers r1) roomCode))
                 (emit (ToSocket sid (RoomJoined roomCode False))
                    (s\<lparr>rooms := AList.update roomCode r1 (rooms s),
                       gameStates := (gameStates s)
                         (roomCode := map_option
                            (\<lambda>gs. if playersShared gs then gs\<lparr>players := players gs @ [p]\<rparr> else gs)
                            (gameStates s roomCode))\<rparr>)))"

definition initializeGameState :: "room \<Rightarrow> string \<Rightarrow> nat list \<Rightarrow> gameState outcome" where
  "initializeGameState r gt ds =
     (case at (roomPlayers r) 0 of
        None \<Rightarrow> Throws
      | Some p0 \<Rightarrow>
          let gs = \<lparr>currentPlayer = player_id p0, gameType = gt, board = NoBoard, winner = None,
                    gameOver = False, players = roomPlayers r, playersShared = True,
                    timer = None, timerStarted = False, firstMoveMade = False,
                    phase = NoPhase, draw = False\<rparr>
          in if gt = ''tictactoe'' then Returns (gs\<lparr>board := TicTacToeBoard (replicate 9 None)\<rparr>)
             else if gt = ''connect4''
             then Returns (gs\<lparr>board := Connect4Board (replicate 6 (replicate 7 None))\<rparr>)
             else if gt = ''checkers''
             then Returns (gs\<lparr>board := CheckersBoard initializeCheckersBoard\<rparr>)
             else if gt = ''battleship'' then
               (case at (roomPlayers r) 1 of
                  None \<Rightarrow> Throws
                | Some p1 \<Rightarrow>
                    let f = \<lparr>ships = [], shots = replicate 100 None\<rparr> in
                    Returns (gs\<lparr>board := BattleshipBoard
                                   (AList.update (player_id p1) f [(player_id p0, f)]),
                                phase := Setup\<rparr>))
             else if gt = ''gomoku''
             then Returns (gs\<lparr>board := GomokuBoard (replicate 15 (replicate 15 None))\<rparr>)
             else if gt = ''dotsandboxes''
             then Returns (gs\<lparr>board := DotsBoard initializeDotsAndBoxes\<rparr>)
             else if gt = ''ludo'' then Returns (gs\<lparr>board := LudoBoard initializeLudo\<rparr>)
             else if gt = ''minichess'' then Returns (gs\<lparr>board := ChessBoard initializeMiniChess\<rparr>)
             else if gt = ''memorymatch'' then
               (case initializeMemoryMatch ds of
                  None \<Rightarrow> Untyped
                | Some m \<Rightarrow> Returns (gs\<lparr>board := MemoryBoard m\<rparr>))
             else if gt = ''minesweeper'' then
               (case initializeMinesweeper ds of
                  None \<Rightarrow> Untyped
                | Some m \<Rightarrow> Returns (gs\<lparr>board := MineBoard m\<rparr>))
             else Returns gs)"

definition selectGame :: "socket_id \<Rightarrow> room_code \<Rightarrow> string \<Rightarrow> nat list \<Rightarrow> server \<Rightarrow>
    server outcome" where
  "selectGame sid roomCode gt ds s =
     (case map_of (rooms s) roomCode of
        None \<Rightarrow> Returns s
      | Some r \<Rightarrow>
          if host r \<noteq> sid then Returns s
          else
            let r1 = r\<lparr>gameSelected := Some gt\<rparr> in
            andThen (initializeGameState r1 gt ds) (\<lambda>gs.
              Returns (emit (ToRoom roomCode (GameSelected gt))
                (s\<lparr>rooms := AList.update roomCode r1 (rooms s),
                   gameStates := (gameStates s)(roomCode := Some gs)\<rparr>))))"

section \<open>The turn timer\<close>

definition startTurnTimer :: "room_code \<Rightarrow> int \<Rightarrow> server \<Rightarrow> server" where
  "startTurnTimer roomCode duration s =
     (case gameStates s roomCode of
        None \<Rightarrow> s
      | Some gs \<Rightarrow>
          if gameOver gs then s
          else
            let pending = (case timer gs of
                             None \<Rightarrow> timeouts s
                           | Some h \<Rightarrow> clearTimeout h (timeouts s));
                h' = nextHandle s
            in s\<lparr>gameStates := (gameStates s)
                    (roomCode := Some (gs\<lparr>timerStarted := True, timer := Some h'\<rparr>)),
                  timeouts := pending @ [(h', roomCode, duration)],
                  nextHandle := h' + 1\<rparr>)"

text \<open>The chain of \<open>if (gameType === ...) startTurnTimer(roomCode, n)\<close> in the makeMove
  handler, on the type sent with the move.\<close>

definition moveTimerDuration :: "string \<Rightarrow> int option" where
  "moveTimerDuration gt =
     (if gt = ''tictactoe'' then Some 4
      else if gt = ''dotsandboxes'' then Some 5
      else if gt = ''gomoku'' then Some 5
      else if gt = ''minichess'' then Some 10
      else if gt = ''ludo'' then Some 6
      else if gt = ''checkers'' then Some 5
      else if gt = ''minesweeper'' then Some 5
      else if gt = ''memorymatch'' then Some 5
      else if gt = ''battleship'' then Some 8
      else None)"

text \<open>The same chain in \<open>skipTurn\<close>, on the type stored in the state.\<close>

definition skipTimerDuration :: "string \<Rightarrow> int option" where
  "skipTimerDuration gt =
     (if gt = ''tictactoe'' then Some 4
      else if gt = ''dotsandboxes'' then Some 5
      else if gt = ''gomoku'' then Some 5
      else if gt = ''minichess'' then Some 10
      else if gt = ''ludo'' then Some 6
      else if gt = ''checkers'' then Some 5
      else if gt = ''minesweeper'' then Some 5
      else if gt = ''memorymatch'' then Some 5
      else if gt = ''battleship'' then Some 8
      else None)"

definition skipTurn :: "room_code \<Rightarrow> server \<Rightarrow> server outcome" where
  "skipTurn roomCode s =
     (case gameStates s roomCode of
        None \<Rightarrow> Returns s
      | Some gs \<Rightarrow>
          if gameOver gs then Returns s
          else
            andThen (otherPlayerId gs (currentPlayer gs)) (\<lambda>next.
              let gs1 = gs\<lparr>currentPlayer := next, timer := None, timerStarted := False\<rparr>;
                  s1 = emit (ToRoom roomCode (GameUpdate gs1 True [TurnSkipped]))
                         (s\<lparr>gameStates := (gameStates s)(roomCode := Some gs1)\<rparr>)
              in Returns (case skipTimerDuration (gameType gs1) of
                            None \<Rightarrow> s1
                          | Some d \<Rightarrow> startTurnTimer roomCode d s1)))"

text \<open>The callback of a pending timeout runs: the timeout is consumed and \<open>skipTurn\<close> is
  called for its room. A handle that is not pending fires nothing.\<close>

definition timeoutFires :: "handle \<Rightarrow> server \<Rightarrow> server outcome" where
  "timeoutFires h s =
     (case map_of (timeouts s) h of
        None \<Rightarrow> Returns s
      | Some t \<Rightarrow> skipTurn (fst t) (s\<lparr>timeouts := clearTimeout h (timeouts s)\<rparr>))"

section \<open>Moves, state requests and disconnects\<close>

text \<open>The handler works on the stored object itself, so what it changed before it
  answered is stored whether the move was valid or not, and the timeouts it cleared are
  gone. Only a valid result is broadcast.\<close>

definition makeMove :: "socket_id \<Rightarrow> room_code \<Rightarrow> move \<Rightarrow> string \<Rightarrow> nat \<Rightarrow> server \<Rightarrow>
    server outcome" where
  "makeMove sid roomCode mv gt rnd s =
     (case gameStates s roomCode of
        None \<Rightarrow> Returns s
      | Some gs \<Rightarrow>
          andThen (processMove gs mv sid gt rnd) (\<lambda>r.
            let s1 = s\<lparr>gameStates := (gameStates s)(roomCode := Some (resultState r)),
                       timeouts := fold clearTimeout (cancelled r) (timeouts s)\<rparr>
            in if valid r then
                 (let s2 = emit (ToRoom roomCode
                                   (GameUpdate (resultState r) True (extras r))) s1
                  in if \<not> gameOver (resultState r) \<and> firstMoveMade (resultState r)
                     then (case moveTimerDuration gt of
                             None \<Rightarrow> Returns s2
                           | Some d \<Rightarrow> Returns (startTurnTimer roomCode d s2))
                     else Returns s2)
               else Returns s1))"

definition requestGameState :: "socket_id \<Rightarrow> room_code \<Rightarrow> server \<Rightarrow> server" where
  "requestGameState sid roomCode s =
     (case gameStates s roomCode of
        None \<Rightarrow> s
      | Some gs \<Rightarrow> emit (ToSocket sid (GameUpdate gs True [])) s)"

text \<open>One turn of the loop over \<open>rooms.entries()\<close> in the disconnect handler. \<open>filter\<close>
  makes a new array, which the game state of the room does not share.\<close>

definition leaveRoom :: "socket_id \<Rightarrow> room_code \<times> room \<Rightarrow> server \<Rightarrow> server" where
  "leaveRoom sid entry s =
     (let roomCode = fst entry; r = snd entry;
          remaining = filter (\<lambda>p. player_id p \<noteq> sid) (roomPlayers r)
      in if length remaining = 0
         then s\<lparr>rooms := AList.delete roomCode (rooms s),
                timeouts := (case gameStates s roomCode of
                               None \<Rightarrow> timeouts s
                             | Some gs \<Rightarrow>
                                 (case timer gs of
                                    None \<Rightarrow> timeouts s
                                  | Some h \<Rightarrow> clearTimeout h (timeouts s))),
                gameStates := (gameStates s)(roomCode := None)\<rparr>
         else emit (ToRoom roomCode (PlayerLeft remaining))
                (s\<lparr>rooms := AList.update roomCode (r\<lparr>roomPlayers := remaining\<rparr>) (rooms s),
                   gameStates := (gameStates s)
                     (roomCode := map_option unshare (gameStates s roomCode))\<rparr>))"

definition disconnect :: "socket_id \<Rightarrow> server \<Rightarrow> server" where
  "disconnect sid s = fold (leaveRoom sid) (rooms s) s"

section \<open>Runs of the server\<close>

datatype request =
    CreateRoom socket_id string room_code
  | JoinRoom socket_id room_code string
  | SelectGame socket_id room_code string "nat list"
  | MakeMove socket_id room_code move string nat
  | RequestGameState socket_id room_code
  | Disconnect socket_id
  | TimeoutFires handle

fun serve :: "request \<Rightarrow> server \<Rightarrow> server outcome" where
  "serve (CreateRoom sid playerName roomCode) s = Returns (createRoom sid playerName roomCode s)"
| "serve (JoinRoom sid roomCode playerName) s = Returns (joinRoom sid roomCode playerName s)"
| "serve (SelectGame sid roomCode gt ds) s = selectGame sid roomCode gt ds s"
| "serve (MakeMove sid roomCode mv gt rnd) s = makeMove sid roomCode mv gt rnd s"
| "serve (RequestGameState sid roomCode) s = Returns (requestGameState sid roomCode s)"
| "serve (Disconnect sid) s = Returns (disconnect sid s)"
| "serve (TimeoutFires h) s = timeoutFires h s"

inductive reachable :: "server \<Rightarrow> bool" where
  start: "reachable initialServer"
| step: "reachable s \<Longrightarrow> serve rq s = Returns s' \<Longrightarrow> reachable s'"

text \<open>A sequence of requests, served one after the other; and a sequence of moves on one
  game state, each on the state the move before returned.\<close>

fun run :: "request list \<Rightarrow> server \<Rightarrow> server outcome" where
  "run [] s = Returns s"
| "run (rq # rqs) s = andThen (serve rq s) (run rqs)"

fun playAll :: "string \<Rightarrow> (socket_id \<times> move \<times> nat) list \<Rightarrow> gameState \<Rightarrow> gameState outcome" where
  "playAll gt [] gs = Returns gs"
| "playAll gt ((playerId, mv, rnd) # rest) gs =
     andThen (processMove gs mv playerId gt rnd) (\<lambda>r. playAll gt rest (resultState r))"

section \<open>Postconditions and example states\<close>

text \<open>\<open>post m Q\<close>: when the run \<open>m\<close> returns, its result satisfies \<open>Q\<close>.\<close>

definition post :: "'a outcome \<Rightarrow> ('a \<Rightarrow> bool) \<Rightarrow> bool" where
  "post m Q = (case m of Returns x \<Rightarrow> Q x | Throws \<Rightarrow> True | Untyped \<Rightarrow> True)"

text \<open>A run: Ann creates ROOM01, then Bob joins it.\<close>

definition annAlone :: server where
  "annAlone = createRoom ''a'' ''Ann'' ''ROOM01'' initialServer"

definition annAndBob :: server where
  "annAndBob = joinRoom ''b'' ''ROOM01'' ''Bob'' annAlone"

text \<open>The invariant of the room registry: one entry per code, each with one or two
  players.\<close>

definition roomsInvariant :: "server \<Rightarrow> bool" where
  "roomsInvariant s =
     (distinct (map fst (rooms s)) \<and>
      list_all (\<lambda>e. 1 \<le> length (roomPlayers (snd e)) \<and> length (roomPlayers (snd e)) \<le> 2)
        (rooms s))"

text \<open>What is left of a room when the connection \<open>sid\<close> goes.\<close>

definition remainingPlayers :: "socket_id \<Rightarrow> room \<Rightarrow> player list" where
  "remainingPlayers sid r = filter (\<lambda>p. player_id p \<noteq> sid) (roomPlayers r)"

text \<open>The game types \<open>processMove\<close> has a case for.\<close>

definition supportedGameTypes :: "string list" where
  "supportedGameTypes = [''tictactoe'', ''connect4'', ''checkers'', ''battleship'', ''gomoku'',
     ''dotsandboxes'', ''ludo'', ''minichess'', ''memorymatch'', ''minesweeper'']"

definition playersAB :: "player list" where
  "playersAB = [\<lparr>player_id = ''a'', player_name = ''Ann'', ready = True\<rparr>,
                \<lparr>player_id = ''b'', player_name = ''Bob'', ready = True\<rparr>]"

text \<open>The state \<open>initializeGameState\<close> builds for a room of Ann (host) and Bob, given the
  board.\<close>

definition newGame :: "string \<Rightarrow> board \<Rightarrow> gameState" where
  "newGame gt b =
     \<lparr>currentPlayer = ''a'', gameType = gt, board = b, winner = None, gameOver = False,
      players = playersAB, playersShared = True, timer = None, timerStarted = False,
      firstMoveMade = False, phase = NoPhase, draw = False\<rparr>"

text \<open>connect4 with three discs of Ann in column 0 and three of Bob in column 1, Ann to
  move; and the state after she drops the fourth disc in column 0 and wins: the winner
  stays the current player.\<close>

definition connect4Mid :: gameState where
  "connect4Mid =
     newGame ''connect4'' (Connect4Board
        [[None, None, None, None, None, None, None],
         [None, None, None, None, None, None, None],
         [None, None, None, None, None, None, None],
         [Some DiscR, Some DiscY, None, None, None, None, None],
         [Some DiscR, Some DiscY, None, None, None, None, None],
         [Some DiscR, Some DiscY, None, None, None, None, None]])"

definition connect4Won :: gameState where
  "connect4Won =
     (newGame ''connect4'' (Connect4Board
        [[None, None, None, None, None, None, None],
         [None, None, None, None, None, None, None],
         [Some DiscR, None, None, None, None, None, None],
         [Some DiscR, Some DiscY, None, None, None, None, None],
         [Some DiscR, Some DiscY, None, None, None, None, None],
         [Some DiscR, Some DiscY, None, None, None, None, None]]))
     \<lparr>winner := Some ''a'', gameOver := True\<rparr>"

definition connect4Server :: server where
  "connect4Server =
     \<lparr>rooms = [(''ROOM01'', \<lparr>code = ''ROOM01'', host = ''a'', roomPlayers = playersAB,
                              gameSelected = Some ''connect4''\<rparr>)],
      gameStates = (\<lambda>c. None)(''ROOM01'' := Some connect4Mid),
      timeouts = [],
      nextHandle = 0,
      outbox = []\<rparr>"

definition safeCell :: mineCell where
  "safeCell = \<lparr>isMine = False, isRevealed = False, neighborCount = 0, revealedBy = None\<rparr>"

text \<open>A minesweeper board with its ten mines in row 0 and at the start of row 1.\<close>

definition mineExample :: mineBoard where
  "mineExample =
     \<lparr>cells = replicate 8 (safeCell\<lparr>isMine := True\<rparr>)
              # (safeCell\<lparr>isMine := True\<rparr> # safeCell\<lparr>isMine := True\<rparr> # replicate 6 safeCell)
              # replicate 6 (replicate 8 safeCell),
      mineScores = [(1, 0), (2, 0)]\<rparr>"

definition fiveShips :: "ship list" where
  "fiveShips =
     [\<lparr>positions = [(0,0), (0,1), (0,2), (0,3), (0,4)], sunk = False\<rparr>,
      \<lparr>positions = [(1,0), (1,1), (1,2), (1,3)], sunk = False\<rparr>,
      \<lparr>positions = [(2,0), (2,1), (2,2)], sunk = False\<rparr>,
      \<lparr>positions = [(3,0), (3,1), (3,2)], sunk = False\<rparr>,
      \<lparr>positions = [(4,0), (4,1)], sunk = False\<rparr>]"

definition battleshipSetup :: gameState where
  "battleshipSetup =
     (newGame ''battleship'' (BattleshipBoard
        [(''a'', \<lparr>ships = [], shots = replicate 100 None\<rparr>),
         (''b'', \<lparr>ships = [], shots = replicate 100 None\<rparr>)]))
     \<lparr>phase := Setup\<rparr>"

text \<open>gomoku after Ann's first stone at index 0: it is Bob's turn and the timer of
  five seconds, handle 0, is pending.\<close>

definition gomokuAfterFirst :: gameState where
  "gomokuAfterFirst =
     (newGame ''gomoku'' (GomokuBoard
        ((Some Filled # replicate 14 None) # replicate 14 (replicate 15 None))))
     \<lparr>currentPlayer := ''b'', firstMoveMade := True, timer := Some 0, timerStarted := True\<rparr>"

definition roomAB :: room where
  "roomAB = \<lparr>code = ''ROOM01'', host = ''a'', roomPlayers = playersAB, gameSelected = None\<rparr>"

definition gomokuServer :: server where
  "gomokuServer =
     \<lparr>rooms = [(''ROOM01'', roomAB\<lparr>gameSelected := Some ''gomoku''\<rparr>)],
      gameStates = (\<lambda>c. None)(''ROOM01'' := Some gomokuAfterFirst),
      timeouts = [(0, ''ROOM01'', 5)],
      nextHandle = 1,
      outbox = []\<rparr>"

text \<open>minichess after Ann's knight went from (4,1) to (2,2) and Bob's from (0,1) to
  (2,0): the square behind Ann's pawn at (3,1) is empty, and it is Ann's turn.\<close>

definition chessKnightsOut :: gameState where
  "chessKnightsOut =
     (newGame ''minichess'' (ChessBoard
        [[Some (Lower Rook), None, Some (Lower King), Some (Lower Knight), Some (Lower Rook)],
         [Some (Lower Pawn), Some (Lower Pawn), Some (Lower Pawn), Some (Lower Pawn), Some (Lower Pawn)],
         [Some (Lower Knight), None, Some (Upper Knight), None, None],
         [Some (Upper Pawn), Some (Upper Pawn), Some (Upper Pawn), Some (Upper Pawn), Some (Upper Pawn)],
         [Some (Upper Rook), None, Some (Upper King), Some (Upper Knight), Some (Upper Rook)]]))
     \<lparr>firstMoveMade := True\<rparr>"

text \<open>ludo: Ann has one piece at home and one at 55, and has rolled the 6; and the same
  board before the roll.\<close>

definition ludoRolledSix :: gameState where
  "ludoRolledSix =
     (newGame ''ludo'' (LudoBoard
        \<lparr>ludo_player1 = \<lparr>pieces = [0, 55], home = 0\<rparr>,
         ludo_player2 = \<lparr>pieces = [0, 0], home = 0\<rparr>,
         diceValue = 6, diceRolled = True\<rparr>))
     \<lparr>firstMoveMade := True\<rparr>"

definition ludoBeforeRoll :: gameState where
  "ludoBeforeRoll =
     (newGame ''ludo'' (LudoBoard
        \<lparr>ludo_player1 = \<lparr>pieces = [0, 55], home = 0\<rparr>,
         ludo_player2 = \<lparr>pieces = [0, 0], home = 0\<rparr>,
         diceValue = 3, diceRolled = False\<rparr>))
     \<lparr>firstMoveMade := True\<rparr>"

definition memoryExample :: memoryBoard where
  "memoryExample =
     \<lparr>cards = map (\<lambda>v. \<lparr>cardValue = v, flipped = False, matched = False\<rparr>)
                [1, 1, 2, 2, 3, 3, 4, 4, 5, 5, 6, 6, 7, 7, 8, 8],
      flippedCards = [],
      memoryScores = [(1, 0), (2, 0)]\<rparr>"

text \<open>tictactoe after Ann's first mark, before the timer of the move is started.\<close>

definition tictactoeServer :: server where
  "tictactoeServer =
     \<lparr>rooms = [(''ROOM01'', roomAB\<lparr>gameSelected := Some ''tictactoe''\<rparr>)],
      gameStates = (\<lambda>c. None)(''ROOM01'' := Some
        ((newGame ''tictactoe'' (TicTacToeBoard (Some MarkX # replicate 8 None)))
           \<lparr>currentPlayer := ''b'', firstMoveMade := True\<rparr>)),
      timeouts = [],
      nextHandle = 0,
      outbox = []\<rparr>"


text \<open>Two runs at the end of which both players of ROOM01 are gone. In the first they
  leave the game they were playing; in the second the host selects the game again after
  the first move, and then they leave.\<close>

definition playThenLeave :: "request list" where
  "playThenLeave =
     [CreateRoom ''a'' ''Ann'' ''ROOM01'', JoinRoom ''b'' ''ROOM01'' ''Bob'',
      SelectGame ''a'' ''ROOM01'' ''tictactoe'' [],
      MakeMove ''a'' ''ROOM01'' (IndexMove 0) ''tictactoe'' 0,
      Disconnect ''a'', Disconnect ''b'']"

definition reselectThenLeave :: "request list" where
  "reselectThenLeave =
     [CreateRoom ''a'' ''Ann'' ''ROOM01'', JoinRoom ''b'' ''ROOM01'' ''Bob'',
      SelectGame ''a'' ''ROOM01'' ''tictactoe'' [],
      MakeMove ''a'' ''ROOM01'' (IndexMove 0) ''tictactoe'' 0,
      SelectGame ''a'' ''ROOM01'' ''tictactoe'' [],
      Disconnect ''a'', Disconnect ''b'']"
section \<open>Basic facts\<close>

lemma andThen_Returns [simp]: "andThen (Returns x) f = f x"
  by (simp add: andThen_def)
lemma andThen_Throws [simp]: "andThen Throws f = Throws"
  by (simp add: andThen_def)
lemma andThen_Untyped [simp]: "andThen Untyped f = Untyped"
  by (simp add: andThen_def)
lemma andThen_eq_Returns: "andThen m f = Returns y \<longleftrightarrow> (\<exists>x. m = Returns x \<and> f x = Returns y)"
  by (cases m) simp_all

lemma post_Returns [simp]: "post (Returns x) Q = Q x" by (simp add: post_def)
lemma post_Throws [simp]: "post Throws Q" by (simp add: post_def)
lemma post_Untyped [simp]: "post Untyped Q" by (simp add: post_def)
lemma post_andThen [simp]: "post (andThen m f) Q = post m (\<lambda>x. post (f x) Q)"
  by (cases m) simp_all
lemma post_weaken: "(\<And>x. Q x) \<Longrightarrow> post m Q"
  by (cases m) simp_all
lemma post_True [simp]: "post m (\<lambda>x. True)"
  by (cases m) simp_all
lemma postD: "post m Q \<Longrightarrow> m = Returns x \<Longrightarrow> Q x" by simp
lemma post_rejected [simp]:
  "post (rejected gs hs) Q = Q \<lparr>resultState = gs, valid = False, extras = [], cancelled = hs\<rparr>"
  by (simp add: rejected_def)
lemma post_accepted [simp]:
  "post (accepted gs xs hs) Q = Q \<lparr>resultState = gs, valid = True, extras = xs, cancelled = hs\<rparr>"
  by (simp add: accepted_def)

lemma put_in_range: "at xs i = Some x \<Longrightarrow> put xs i v = Returns (xs[nat i := v])"
proof (induction xs arbitrary: i)
  case Nil then show ?case by simp
next
  case (Cons a xs)
  show ?case
  proof (cases "i = 0")
    case True then show ?thesis by simp
  next
    case False
    with Cons.prems have pos: "0 < i" and tl: "at xs (i - 1) = Some x"
      by (auto split: if_splits)
    from pos have "nat i = Suc (nat (i - 1))" by simp
    with Cons.IH[OF tl] pos show ?thesis by simp
  qed
qed

lemma at_nth: "at xs i = Some x \<Longrightarrow> 0 \<le> i \<and> nat i < length xs \<and> xs ! nat i = x"
proof (induction xs arbitrary: i)
  case Nil then show ?case by simp
next
  case (Cons a xs)
  show ?case
  proof (cases "i = 0")
    case True with Cons.prems show ?thesis by simp
  next
    case False
    with Cons.prems have pos: "0 < i" and tl: "at xs (i - 1) = Some x"
      by (auto split: if_splits)
    from pos have "nat i = Suc (nat (i - 1))" by simp
    with Cons.IH[OF tl] pos show ?thesis by simp
  qed
qed


text \<open>Clearing a timeout.\<close>

lemma map_of_clearTimeout_same [simp]: "map_of (clearTimeout h ts) h = None"
  by (induction ts) (auto simp: clearTimeout_def)

lemma map_of_clearTimeout_other [simp]:
  "h' \<noteq> h \<Longrightarrow> map_of (clearTimeout h ts) h' = map_of ts h'"
  by (induction ts) (auto simp: clearTimeout_def)

lemma clearTimeout_append [simp]:
  "clearTimeout h (ts @ us) = clearTimeout h ts @ clearTimeout h us"
  by (simp add: clearTimeout_def)

lemma clearTimeout_single [simp]: "clearTimeout h [(h, v)] = []"
  by (simp add: clearTimeout_def)

section \<open>What a rejected move leaves behind\<close>

text \<open>Every handler rejects before it writes to the board; the one thing a rejection
  may already have done is clear the timer.\<close>

lemma clearTimer_cases:
  "clearTimer gs = (gs1, hs) \<Longrightarrow> gs1\<lparr>timer := timer gs\<rparr> = gs"
  by (auto simp: clearTimer_def split: option.splits)

lemma tictactoe_rejects:
  "post (processTicTacToeMove gs mv playerId) (\<lambda>r. valid r \<or> (resultState r)\<lparr>timer := timer gs\<rparr> = gs)"
  unfolding processTicTacToeMove_def Let_def
  by (auto simp: switchTurns_def clearTimer_def intro!: post_weaken split: board.split move.split option.split)

lemma connect4_rejects:
  "post (processConnect4Move gs mv playerId) (\<lambda>r. valid r \<or> (resultState r)\<lparr>timer := timer gs\<rparr> = gs)"
  unfolding processConnect4Move_def Let_def
  by (auto simp: switchTurns_def clearTimer_def intro!: post_weaken split: board.split move.split option.split)

lemma gomoku_rejects:
  "post (processGomokuMove gs mv playerId) (\<lambda>r. valid r \<or> (resultState r)\<lparr>timer := timer gs\<rparr> = gs)"
  unfolding processGomokuMove_def Let_def
  by (auto simp: switchTurns_def clearTimer_def intro!: post_weaken split: board.split move.split option.split)

lemma dots_rejects:
  "post (processDotsAndBoxesMove gs mv playerId) (\<lambda>r. valid r \<or> (resultState r)\<lparr>timer := timer gs\<rparr> = gs)"
  unfolding processDotsAndBoxesMove_def Let_def
  by (auto simp: switchTurns_def clearTimer_def intro!: post_weaken split: board.split move.split option.split)

lemma post_mono: "post m P \<Longrightarrow> (\<And>x. P x \<Longrightarrow> Q x) \<Longrightarrow> post m Q"
  by (cases m) simp_all

lemma rollDice_accepts: "post (rollDice gs lb k playerId rnd hs) valid"
  unfolding rollDice_def Let_def
  by (auto simp: switchTurns_def intro!: post_weaken)

lemma movePiece_rejects:
  "post (movePiece gs lb k playerId pieceIndex hs) (\<lambda>r. valid r \<or> resultState r = gs)"
  unfolding movePiece_def
  by (simp add: Let_def switchTurns_def post_weaken split: option.split)

lemma ludo_rejects:
  "post (processLudoMove gs mv playerId rnd) (\<lambda>r. valid r \<or> (resultState r)\<lparr>timer := timer gs\<rparr> = gs)"
proof -
  have a: "post (rollDice g lb k playerId rnd hs) (\<lambda>r. valid r \<or> (resultState r)\<lparr>timer := timer gs\<rparr> = gs)"
    for g lb k hs
    by (rule post_mono[OF rollDice_accepts]) simp
  have b: "g\<lparr>timer := timer gs\<rparr> = gs \<Longrightarrow>
      post (movePiece g lb k playerId i hs) (\<lambda>r. valid r \<or> (resultState r)\<lparr>timer := timer gs\<rparr> = gs)"
    for g lb k hs i
    by (rule post_mono[OF movePiece_rejects]) auto
  show ?thesis
  proof (cases "clearTimer gs")
    case (Pair gs1 hs)
    then have k: "gs1\<lparr>timer := timer gs\<rparr> = gs" by (rule clearTimer_cases)
    show ?thesis
      unfolding processLudoMove_def Let_def Pair
      by (simp add: a b[OF k] k split: board.split move.split)
  qed
qed

lemma minichess_rejects:
  "post (processMiniChessMove gs mv playerId) (\<lambda>r. valid r \<or> (resultState r)\<lparr>timer := timer gs\<rparr> = gs)"
proof (cases "clearTimer gs")
  case (Pair gs1 hs)
  then have k: "gs1\<lparr>timer := timer gs\<rparr> = gs" by (rule clearTimer_cases)
  show ?thesis
    unfolding processMiniChessMove_def Let_def Pair
    by (auto simp: switchTurns_def k intro!: post_weaken split: board.split move.split option.split)
qed

lemma secondFlip_accepts: "post (secondFlip gs m playerId hs) valid"
  unfolding secondFlip_def Let_def
  by (auto intro!: post_weaken split: option.split)

lemma memory_rejects:
  "post (processMemoryMatchMove gs mv playerId) (\<lambda>r. valid r \<or> (resultState r)\<lparr>timer := timer gs\<rparr> = gs)"
proof (cases "clearTimer gs")
  case (Pair gs1 hs)
  then have k: "gs1\<lparr>timer := timer gs\<rparr> = gs" by (rule clearTimer_cases)
  have a: "post (secondFlip g m playerId hs') (\<lambda>r. valid r \<or> (resultState r)\<lparr>timer := timer gs\<rparr> = gs)"
    for g m hs'
    by (rule post_mono[OF secondFlip_accepts]) simp
  show ?thesis
    unfolding processMemoryMatchMove_def Let_def Pair
    by (auto simp: k a intro!: post_weaken split: board.split move.split option.split)
qed

lemma revealSafe_accepts: "post (revealSafe gs mb cell row col playerId hs) valid"
  unfolding revealSafe_def Let_def
  by (auto intro!: post_weaken)

lemma minesweeper_rejects:
  "post (processMinesweeperMove gs mv playerId) (\<lambda>r. valid r \<or> (resultState r)\<lparr>timer := timer gs\<rparr> = gs)"
proof (cases "clearTimer gs")
  case (Pair gs1 hs)
  then have k: "gs1\<lparr>timer := timer gs\<rparr> = gs" by (rule clearTimer_cases)
  have a: "post (revealSafe g mb cell row col playerId hs') (\<lambda>r. valid r \<or> (resultState r)\<lparr>timer := timer gs\<rparr> = gs)"
    for g mb cell row col hs'
    by (rule post_mono[OF revealSafe_accepts]) simp
  show ?thesis
    unfolding processMinesweeperMove_def Let_def Pair
    by (auto simp: k a intro!: post_weaken split: board.split move.split option.split)
qed

lemma checkers_rejects:
  "post (processCheckersMove gs mv playerId) (\<lambda>r. valid r \<or> (resultState r)\<lparr>timer := timer gs\<rparr> = gs)"
proof (cases "clearTimer gs")
  case (Pair gs1 hs)
  then have k: "gs1\<lparr>timer := timer gs\<rparr> = gs" by (rule clearTimer_cases)
  show ?thesis
    unfolding processCheckersMove_def Let_def Pair
    by (auto simp: switchTurns_def k intro!: post_weaken split: board.split move.split option.split)
qed

lemma battleship_rejects:
  "post (processBattleshipMove gs mv playerId) (\<lambda>r. valid r \<or> (resultState r)\<lparr>timer := timer gs\<rparr> = gs)"
proof (cases "clearTimer gs")
  case (Pair gs1 hs)
  then have k: "gs1\<lparr>timer := timer gs\<rparr> = gs" by (rule clearTimer_cases)
  show ?thesis
    unfolding processBattleshipMove_def processBattleshipSetup_def processBattleshipShot_def Let_def Pair
    by (auto simp: k intro!: post_weaken split: board.split move.split option.split)
qed

lemma processMove_rejects:
  "post (processMove gs mv playerId gt rnd) (\<lambda>r. valid r \<or> (resultState r)\<lparr>timer := timer gs\<rparr> = gs)"
  unfolding processMove_def
  by (simp add: tictactoe_rejects connect4_rejects checkers_rejects battleship_rejects
      gomoku_rejects dots_rejects ludo_rejects minichess_rejects memory_rejects
      minesweeper_rejects)

lemma startTurnTimer_outbox: "outbox (startTurnTimer c d s) = outbox s"
  by (simp add: startTurnTimer_def Let_def split: option.splits)

section \<open>The example states come from runs of the code\<close>

text \<open>The outbox of the example servers is left empty; the rest of them is what the
  requests produce.\<close>

lemma newGame_initial:
  "initializeGameState roomAB ''tictactoe'' [] =
     Returns (newGame ''tictactoe'' (TicTacToeBoard (replicate 9 None)))"
  "initializeGameState roomAB ''connect4'' [] =
     Returns (newGame ''connect4'' (Connect4Board (replicate 6 (replicate 7 None))))"
  "initializeGameState roomAB ''gomoku'' [] =
     Returns (newGame ''gomoku'' (GomokuBoard (replicate 15 (replicate 15 None))))"
  "initializeGameState roomAB ''checkers'' [] =
     Returns (newGame ''checkers'' (CheckersBoard initializeCheckersBoard))"
  "initializeGameState roomAB ''minichess'' [] =
     Returns (newGame ''minichess'' (ChessBoard initializeMiniChess))"
  "initializeGameState roomAB ''ludo'' [] = Returns (newGame ''ludo'' (LudoBoard initializeLudo))"
  "initializeGameState roomAB ''battleship'' [] = Returns battleshipSetup"
  "initializeGameState roomAB ''minesweeper''
     [0,0, 0,1, 0,2, 0,3, 0,4, 0,5, 0,6, 0,7, 1,0, 1,1] =
     Returns (newGame ''minesweeper'' (MineBoard mineExample))"
  "initializeGameState roomAB ''memorymatch'' [15, 14, 13, 12, 11, 10, 9, 8, 7, 6, 5, 4, 3, 2, 1] =
     Returns (newGame ''memorymatch'' (MemoryBoard memoryExample))"
  by code_simp+

lemma connect4_examples_played:
  "playAll ''connect4''
     [(''a'', ColumnMove 0, 0), (''b'', ColumnMove 1, 0), (''a'', ColumnMove 0, 0),
      (''b'', ColumnMove 1, 0), (''a'', ColumnMove 0, 0), (''b'', ColumnMove 1, 0)]
     (newGame ''connect4'' (Connect4Board (replicate 6 (replicate 7 None)))) = Returns connect4Mid"
  "playAll ''connect4'' [(''a'', ColumnMove 0, 0)] connect4Mid = Returns connect4Won"
  by code_simp+

lemma chess_example_played:
  "playAll ''minichess'' [(''a'', FromToMove 4 1 2 2, 0), (''b'', FromToMove 0 1 2 0, 0)]
     (newGame ''minichess'' (ChessBoard initializeMiniChess)) = Returns chessKnightsOut"
  by code_simp

lemma ludo_examples_played:
  "playAll ''ludo''
     [(''a'', LudoMove ''rollDice'' 0, 5), (''a'', LudoMove ''movePiece'' 1, 0),
      (''a'', LudoMove ''rollDice'' 0, 5), (''a'', LudoMove ''movePiece'' 1, 0),
      (''a'', LudoMove ''rollDice'' 0, 5), (''a'', LudoMove ''movePiece'' 1, 0),
      (''a'', LudoMove ''rollDice'' 0, 5), (''a'', LudoMove ''movePiece'' 1, 0),
      (''a'', LudoMove ''rollDice'' 0, 5), (''a'', LudoMove ''movePiece'' 1, 0),
      (''a'', LudoMove ''rollDice'' 0, 5), (''a'', LudoMove ''movePiece'' 1, 0),
      (''a'', LudoMove ''rollDice'' 0, 5), (''a'', LudoMove ''movePiece'' 1, 0),
      (''a'', LudoMove ''rollDice'' 0, 5), (''a'', LudoMove ''movePiece'' 1, 0),
      (''a'', LudoMove ''rollDice'' 0, 5), (''a'', LudoMove ''movePiece'' 1, 0),
      (''a'', LudoMove ''rollDice'' 0, 5), (''a'', LudoMove ''movePiece'' 1, 0),
      (''a'', LudoMove ''rollDice'' 0, 2), (''b'', LudoMove ''rollDice'' 0, 2)]
     (newGame ''ludo'' (LudoBoard initializeLudo)) = Returns ludoBeforeRoll"
  "playAll ''ludo'' [(''a'', LudoMove ''rollDice'' 0, 5)] ludoBeforeRoll = Returns ludoRolledSix"
  by code_simp+

lemma servers_run:
  "(case run [CreateRoom ''a'' ''Ann'' ''ROOM01'', JoinRoom ''b'' ''ROOM01'' ''Bob'',
              SelectGame ''a'' ''ROOM01'' ''gomoku'' [],
              MakeMove ''a'' ''ROOM01'' (IndexMove 0) ''gomoku'' 0] initialServer of
      Returns s \<Rightarrow> rooms s = rooms gomokuServer \<and>
                   gameStates s ''ROOM01'' = gameStates gomokuServer ''ROOM01'' \<and>
                   timeouts s = timeouts gomokuServer \<and> nextHandle s = nextHandle gomokuServer
    | Throws \<Rightarrow> False | Untyped \<Rightarrow> False)"
  "(case run [CreateRoom ''a'' ''Ann'' ''ROOM01'', JoinRoom ''b'' ''ROOM01'' ''Bob'',
              SelectGame ''a'' ''ROOM01'' ''connect4'' [],
              MakeMove ''a'' ''ROOM01'' (ColumnMove 0) ''connect4'' 0,
              MakeMove ''b'' ''ROOM01'' (ColumnMove 1) ''connect4'' 0,
              MakeMove ''a'' ''ROOM01'' (ColumnMove 0) ''connect4'' 0,
              MakeMove ''b'' ''ROOM01'' (ColumnMove 1) ''connect4'' 0,
              MakeMove ''a'' ''ROOM01'' (ColumnMove 0) ''connect4'' 0,
              MakeMove ''b'' ''ROOM01'' (ColumnMove 1) ''connect4'' 0] initialServer of
      Returns s \<Rightarrow> rooms s = rooms connect4Server \<and>
                   gameStates s ''ROOM01'' = gameStates connect4Server ''ROOM01'' \<and>
                   timeouts s = timeouts connect4Server \<and> nextHandle s = nextHandle connect4Server
    | Throws \<Rightarrow> False | Untyped \<Rightarrow> False)"
  "(case run [CreateRoom ''a'' ''Ann'' ''ROOM01'', JoinRoom ''b'' ''ROOM01'' ''Bob'',
              SelectGame ''a'' ''ROOM01'' ''tictactoe'' [],
              MakeMove ''a'' ''ROOM01'' (IndexMove 0) ''tictactoe'' 0] initialServer of
      Returns s \<Rightarrow> rooms s = rooms (startTurnTimer ''ROOM01'' 4 tictactoeServer) \<and>
                   gameStates s ''ROOM01'' =
                     gameStates (startTurnTimer ''ROOM01'' 4 tictactoeServer) ''ROOM01'' \<and>
                   timeouts s = timeouts (startTurnTimer ''ROOM01'' 4 tictactoeServer) \<and>
                   nextHandle s = nextHandle (startTurnTimer ''ROOM01'' 4 tictactoeServer)
    | Throws \<Rightarrow> False | Untyped \<Rightarrow> False)"
  by code_simp+

section \<open>Claims\<close>

text \<open>
  C1. The claim says that makeMove broadcasts a gameUpdate on any outcome, rejected moves
  included, and that a rejection never cancels a running timer. The handler broadcasts
  only inside \<open>if (result.valid)\<close>. What holds: for a room with a game state and a move
  whose handler returns, makeMove returns; an accepted move broadcasts one gameUpdate
  carrying the resulting state, the flag and the extras; a rejected move broadcasts
  nothing and leaves every field of the stored state other than the timer handle as it
  was.
\<close>

theorem makeMove_broadcasts_accepted_only:
  assumes "gameStates s roomCode = Some gs" and "processMove gs mv sid gt rnd = Returns r"
  shows "\<exists>s'. makeMove sid roomCode mv gt rnd s = Returns s' \<and>
           (if valid r
            then outbox s' = outbox s @ [ToRoom roomCode (GameUpdate (resultState r) True (extras r))]
            else outbox s' = outbox s \<and>
                 map_option (\<lambda>g. g\<lparr>timer := timer gs\<rparr>) (gameStates s' roomCode) = Some gs)"
proof -
  from postD[OF processMove_rejects assms(2)]
  have k: "valid r \<or> (resultState r)\<lparr>timer := timer gs\<rparr> = gs" .
  show ?thesis
  proof (cases "valid r")
    case True
    with assms show ?thesis
      by (simp add: makeMove_def Let_def emit_def startTurnTimer_outbox split: option.split)
  next
    case False
    with k assms show ?thesis
      by (simp add: makeMove_def Let_def)
  qed
qed

text \<open>An accepted tictactoe move of Bob is broadcast.\<close>

theorem makeMove_broadcasts_accepted_only_witness:
  "\<exists>s'. makeMove ''b'' ''ROOM01'' (IndexMove 4) ''tictactoe'' 0 tictactoeServer = Returns s' \<and>
        length (outbox s') = 1"
proof -
  let ?g = "(newGame ''tictactoe'' (TicTacToeBoard (Some MarkX # replicate 8 None)))
              \<lparr>currentPlayer := ''b'', firstMoveMade := True\<rparr>"
  have h1: "gameStates tictactoeServer ''ROOM01'' = Some ?g"
    by (simp add: tictactoeServer_def)
  have "\<exists>r. processMove ?g (IndexMove 4) ''b'' ''tictactoe'' 0 = Returns r \<and> valid r"
    by (simp add: processMove_def processTicTacToeMove_def newGame_def playersAB_def
        clearTimer_def playerIndexOf_def winPatterns_def switchTurns_def otherPlayerId_def
        accepted_def numeral_eq_Suc)
  then obtain r where h2: "processMove ?g (IndexMove 4) ''b'' ''tictactoe'' 0 = Returns r"
    and v: "valid r" by blast
  from makeMove_broadcasts_accepted_only[OF h1 h2] v show ?thesis
    by (auto simp: tictactoeServer_def)
qed

text \<open>The claim fails where Bob, after Ann's first gomoku stone, plays the occupied
  index 0: nothing is broadcast, and the pending timer is cancelled and forgotten.\<close>

theorem gomoku_rejection_is_silent_and_stops_timer:
  "processMove gomokuAfterFirst (IndexMove 0) ''b'' ''gomoku'' 0 =
     Returns \<lparr>resultState = gomokuAfterFirst\<lparr>timer := None\<rparr>, valid = False, extras = [],
              cancelled = [0]\<rparr> \<and>
   (case makeMove ''b'' ''ROOM01'' (IndexMove 0) ''gomoku'' 0 gomokuServer of
      Returns s' \<Rightarrow> outbox s' = [] \<and> timeouts s' = [] \<and>
                    gameStates s' ''ROOM01'' = Some (gomokuAfterFirst\<lparr>timer := None\<rparr>)
    | Throws \<Rightarrow> False | Untyped \<Rightarrow> False) \<and>
   timeouts gomokuServer = [(0, ''ROOM01'', 5)] \<and> timer gomokuAfterFirst = Some 0"
proof -
  have p: "processMove gomokuAfterFirst (IndexMove 0) ''b'' ''gomoku'' 0 =
     Returns \<lparr>resultState = gomokuAfterFirst\<lparr>timer := None\<rparr>, valid = False, extras = [],
              cancelled = [0]\<rparr>"
    by (simp add: processMove_def processGomokuMove_def gomokuAfterFirst_def newGame_def
        clearTimer_def js_rem_def at2_def rejected_def)
  have g: "gameStates gomokuServer ''ROOM01'' = Some gomokuAfterFirst"
    by (simp add: gomokuServer_def)
  show ?thesis
    by (simp add: p g makeMove_def Let_def)
       (simp add: gomokuServer_def clearTimeout_def gomokuAfterFirst_def newGame_def)
qed

text \<open>
  C2. The claim says that in every game a move of a player who is not the current player
  is rejected and changes nothing, in battleship in both phases. The setup phase of
  battleship does not look at the current player: each player submits a fleet. What
  holds: except for battleship in its setup phase, such a move is rejected, the state is
  returned as it was, and no timer is cleared.
\<close>

theorem wrong_turn_rejected:
  assumes "currentPlayer gs \<noteq> playerId" and "gt \<noteq> ''battleship'' \<or> phase gs \<noteq> Setup"
  shows "processMove gs mv playerId gt rnd =
           Returns \<lparr>resultState = gs, valid = False, extras = [], cancelled = []\<rparr>"
  using assms
  by (auto simp: processMove_def processTicTacToeMove_def processConnect4Move_def
      processCheckersMove_def processBattleshipMove_def processBattleshipShot_def
      processGomokuMove_def processDotsAndBoxesMove_def processLudoMove_def
      processMiniChessMove_def processMemoryMatchMove_def processMinesweeperMove_def
      rejected_def)

theorem wrong_turn_rejected_witness:
  "processMove connect4Won (ColumnMove 3) ''b'' ''connect4'' 0 =
     Returns \<lparr>resultState = connect4Won, valid = False, extras = [], cancelled = []\<rparr> \<and>
   processMove (battleshipSetup\<lparr>phase := Playing\<rparr>) (CellMove 0 0) ''b'' ''battleship'' 0 =
     Returns \<lparr>resultState = battleshipSetup\<lparr>phase := Playing\<rparr>, valid = False, extras = [],
              cancelled = []\<rparr>"
proof -
  have a: "currentPlayer connect4Won \<noteq> ''b''"
    by (simp add: connect4Won_def newGame_def)
  have b: "currentPlayer (battleshipSetup\<lparr>phase := Playing\<rparr>) \<noteq> ''b''"
    by (simp add: battleshipSetup_def newGame_def)
  show ?thesis
    using wrong_turn_rejected[OF a, of "''connect4''" "ColumnMove 3" 0]
      wrong_turn_rejected[OF b, of "''battleship''" "CellMove 0 0" 0]
    by simp
qed

text \<open>The claim fails in the setup phase: it is Ann's turn, Bob submits his five ships,
  and the move is accepted and stored.\<close>

theorem battleship_setup_ignores_turn:
  "currentPlayer battleshipSetup = ''a'' \<and> phase battleshipSetup = Setup \<and>
   processMove battleshipSetup (ShipsMove fiveShips) ''b'' ''battleship'' 0 =
     Returns \<lparr>resultState = battleshipSetup\<lparr>board := BattleshipBoard
                 [(''a'', \<lparr>ships = [], shots = replicate 100 None\<rparr>),
                  (''b'', \<lparr>ships = fiveShips, shots = replicate 100 None\<rparr>)]\<rparr>,
              valid = True, extras = [PhaseIs Setup], cancelled = []\<rparr>"
  by (simp add: processMove_def processBattleshipMove_def processBattleshipSetup_def
      battleshipSetup_def newGame_def playersAB_def validateShipPlacement_def fiveShips_def
      accepted_def)

text \<open>What the sibling handlers do: every handler but connect4's (and the setup phase of
  battleship) rejects a move once the game is over, and minichess rejects coordinates
  outside its 5 by 5 board.\<close>

lemma game_over_rejected_by_the_other_handlers:
  assumes "gameOver gs" and "gt \<noteq> ''connect4''" and "gt \<noteq> ''battleship'' \<or> phase gs \<noteq> Setup"
  shows "post (processMove gs mv playerId gt rnd)
           (\<lambda>r. r = \<lparr>resultState = gs, valid = False, extras = [], cancelled = []\<rparr>)"
  using assms
  by (auto simp: processMove_def processTicTacToeMove_def
      processCheckersMove_def processBattleshipMove_def processBattleshipShot_def
      processGomokuMove_def processDotsAndBoxesMove_def processLudoMove_def
      processMiniChessMove_def processMemoryMatchMove_def processMinesweeperMove_def
      split: board.split move.split)

lemma minichess_rejects_out_of_bounds:
  assumes "fromRow < 0 \<or> 5 \<le> fromRow \<or> fromCol < 0 \<or> 5 \<le> fromCol \<or>
           toRow < 0 \<or> 5 \<le> toRow \<or> toCol < 0 \<or> 5 \<le> toCol"
  shows "post (processMiniChessMove gs (FromToMove fromRow fromCol toRow toCol) playerId)
           (\<lambda>r. \<not> valid r \<and> (resultState r)\<lparr>timer := timer gs\<rparr> = gs)"
proof (cases "clearTimer gs")
  case (Pair gs1 hs)
  then have k: "gs1\<lparr>timer := timer gs\<rparr> = gs" by (rule clearTimer_cases)
  show ?thesis
    unfolding processMiniChessMove_def Pair
    using assms by (auto simp: k split: board.split)
qed

text \<open>
  C3. The claim says that every handler rejects, without faulting and without changing
  the state, a move in a game that is over or with fields outside the board, and names
  connect4 for the first and minesweeper and checkers for the second. The code does not:
  Ann wins connect4 with her fourth disc in column 0, the game is over, and her next
  disc in column 2 is accepted and placed; a minesweeper move with row 8 or column 8 and
  a checkers move from or to row 8 throw a TypeError. The other nine handlers test
  \<open>gameOver\<close>, and minichess, dotsandboxes and ludo test their bounds.
\<close>

theorem game_over_and_bounds_checks_missing:
  "processMove connect4Mid (ColumnMove 0) ''a'' ''connect4'' 0 =
     Returns \<lparr>resultState = connect4Won, valid = True, extras = [WinnerIs (Some ''a'')],
              cancelled = []\<rparr> \<and>
   gameOver connect4Won \<and>
   processMove connect4Won (ColumnMove 2) ''a'' ''connect4'' 0 =
     Returns \<lparr>resultState = connect4Won\<lparr>currentPlayer := ''b'', board := Connect4Board
        [[None, None, None, None, None, None, None],
         [None, None, None, None, None, None, None],
         [Some DiscR, None, None, None, None, None, None],
         [Some DiscR, Some DiscY, None, None, None, None, None],
         [Some DiscR, Some DiscY, None, None, None, None, None],
         [Some DiscR, Some DiscY, Some DiscR, None, None, None, None]]\<rparr>,
       valid = True, extras = [], cancelled = []\<rparr> \<and>
   processMove (newGame ''minesweeper'' (MineBoard mineExample)) (CellMove 8 0) ''a''
     ''minesweeper'' 0 = Throws \<and>
   processMove (newGame ''minesweeper'' (MineBoard mineExample)) (CellMove 0 8) ''a''
     ''minesweeper'' 0 = Throws \<and>
   processMove (newGame ''checkers'' (CheckersBoard initializeCheckersBoard)) (FromToMove 8 1 7 0)
     ''a'' ''checkers'' 0 = Throws \<and>
   processMove (newGame ''checkers'' (CheckersBoard initializeCheckersBoard)) (FromToMove 7 0 8 1)
     ''a'' ''checkers'' 0 = Throws"
  by code_simp

theorem game_over_and_bounds_checks_missing_witness:
  "\<exists>r. processMove connect4Won (ColumnMove 2) ''a'' ''connect4'' 0 = Returns r \<and> valid r \<and>
        board (resultState r) \<noteq> board connect4Won"
  using game_over_and_bounds_checks_missing
  by (simp add: connect4Won_def newGame_def)






text \<open>
  C5. The claim says that createRoom produces a code that no active room uses and never
  overwrites a room. The code is drawn at random and stored with \<open>rooms.set\<close> unchecked.
  What holds: createRoom always succeeds; under the drawn code it stores a room whose
  only player is ready and has the creator's connection id, which is also the host;
  rooms under other codes stay as they were; the creator is told the code and the
  player list.
\<close>

theorem createRoom_stores_one_ready_player:
  "serve (CreateRoom sid playerName roomCode) s = Returns (createRoom sid playerName roomCode s) \<and>
   map_of (rooms (createRoom sid playerName roomCode s)) roomCode =
     Some \<lparr>code = roomCode, host = sid,
           roomPlayers = [\<lparr>player_id = sid, player_name = playerName, ready = True\<rparr>],
           gameSelected = None\<rparr> \<and>
   (\<forall>c. c \<noteq> roomCode \<longrightarrow>
      map_of (rooms (createRoom sid playerName roomCode s)) c = map_of (rooms s) c) \<and>
   outbox (createRoom sid playerName roomCode s) =
     outbox s @ [ToSocket sid (RoomCreated roomCode True),
                 ToSocket sid (PlayerJoined [\<lparr>player_id = sid, player_name = playerName, ready = True\<rparr>]
                                roomCode)]"
  by (simp add: createRoom_def Let_def emit_def update_conv')

theorem createRoom_stores_one_ready_player_witness:
  "map_of (rooms (createRoom ''a'' ''Ann'' ''ROOM01'' initialServer)) ''ROOM01'' =
     Some \<lparr>code = ''ROOM01'', host = ''a'',
           roomPlayers = [\<lparr>player_id = ''a'', player_name = ''Ann'', ready = True\<rparr>],
           gameSelected = None\<rparr> \<and>
   map_of (rooms (createRoom ''a'' ''Ann'' ''ROOM01'' initialServer)) ''ROOM02'' = None"
  using createRoom_stores_one_ready_player[of "''a''" "''Ann''" "''ROOM01''" initialServer]
  by (simp add: initialServer_def)

text \<open>The claim fails when the drawn code is in use: Ann's room ROOM01 is replaced by
  Cy's.\<close>

theorem createRoom_can_replace_a_room:
  "map_of (rooms (createRoom ''a'' ''Ann'' ''ROOM01'' initialServer)) ''ROOM01'' =
     Some \<lparr>code = ''ROOM01'', host = ''a'',
           roomPlayers = [\<lparr>player_id = ''a'', player_name = ''Ann'', ready = True\<rparr>],
           gameSelected = None\<rparr> \<and>
   rooms (createRoom ''c'' ''Cy'' ''ROOM01'' (createRoom ''a'' ''Ann'' ''ROOM01'' initialServer)) =
     [(''ROOM01'', \<lparr>code = ''ROOM01'', host = ''c'',
           roomPlayers = [\<lparr>player_id = ''c'', player_name = ''Cy'', ready = True\<rparr>],
           gameSelected = None\<rparr>)]"
  by code_simp

text \<open>The invariant is kept by every request.\<close>

lemma list_all_update:
  "P (k, v) \<Longrightarrow> list_all P al \<Longrightarrow> list_all P (AList.update k v al)"
  by (induction al) auto

lemma list_all_delete: "list_all P al \<Longrightarrow> list_all P (AList.delete k al)"
  by (induction al) auto

lemma createRoom_invariant: "roomsInvariant s \<Longrightarrow> roomsInvariant (createRoom sid n c s)"
  by (simp add: roomsInvariant_def createRoom_def Let_def emit_def distinct_update list_all_update)

lemma map_of_list_all: "list_all P al \<Longrightarrow> map_of al k = Some v \<Longrightarrow> P (k, v)"
  by (induction al) (auto split: if_splits)

lemma joinRoom_invariant: "roomsInvariant s \<Longrightarrow> roomsInvariant (joinRoom sid c n s)"
proof (cases "map_of (rooms s) c")
  case None
  assume "roomsInvariant s"
  with None show ?thesis by (simp add: roomsInvariant_def joinRoom_def emit_def)
next
  case (Some r)
  assume i: "roomsInvariant s"
  show ?thesis
    using i Some
    by (auto simp: roomsInvariant_def joinRoom_def Let_def emit_def distinct_update
        intro!: list_all_update)
qed

lemma selectGame_invariant:
  "roomsInvariant s \<Longrightarrow> post (selectGame sid c gt ds s) roomsInvariant"
proof (cases "map_of (rooms s) c")
  case None
  assume "roomsInvariant s"
  with None show ?thesis by (simp add: selectGame_def)
next
  case (Some r)
  assume i: "roomsInvariant s"
  then have "1 \<le> length (roomPlayers r) \<and> length (roomPlayers r) \<le> 2"
    using map_of_list_all[OF _ Some, of "\<lambda>e. 1 \<le> length (roomPlayers (snd e)) \<and> length (roomPlayers (snd e)) \<le> 2"]
    by (simp add: roomsInvariant_def)
  with i Some show ?thesis
    by (auto simp: selectGame_def Let_def emit_def roomsInvariant_def distinct_update
        intro!: post_weaken list_all_update)
qed

lemma startTurnTimer_rooms [simp]: "rooms (startTurnTimer c d s) = rooms s"
  by (simp add: startTurnTimer_def Let_def split: option.split)

lemma makeMove_rooms: "post (makeMove sid c mv gt rnd s) (\<lambda>s'. rooms s' = rooms s)"
  by (auto simp: makeMove_def Let_def emit_def intro!: post_weaken split: option.split)

lemma skipTurn_rooms: "post (skipTurn c s) (\<lambda>s'. rooms s' = rooms s)"
  by (auto simp: skipTurn_def Let_def emit_def intro!: post_weaken split: option.split)

lemma timeoutFires_rooms: "post (timeoutFires h s) (\<lambda>s'. rooms s' = rooms s)"
proof (cases "map_of (timeouts s) h")
  case None
  then show ?thesis by (simp add: timeoutFires_def)
next
  case (Some t)
  have "post (skipTurn (fst t) (s\<lparr>timeouts := clearTimeout h (timeouts s)\<rparr>))
          (\<lambda>s'. rooms s' = rooms (s\<lparr>timeouts := clearTimeout h (timeouts s)\<rparr>))"
    by (rule skipTurn_rooms)
  with Some show ?thesis by (simp add: timeoutFires_def)
qed

lemma leaveRoom_invariant:
  assumes "roomsInvariant s" and "length (roomPlayers (snd e)) \<le> 2"
  shows "roomsInvariant (leaveRoom sid e s)"
proof -
  have "length (filter (\<lambda>p. player_id p \<noteq> sid) (roomPlayers (snd e))) \<le> 2"
    using assms(2) length_filter_le[of "\<lambda>p. player_id p \<noteq> sid" "roomPlayers (snd e)"] by linarith
  moreover have "filter (\<lambda>p. player_id p \<noteq> sid) (roomPlayers (snd e)) \<noteq> [] \<Longrightarrow>
      1 \<le> length (filter (\<lambda>p. player_id p \<noteq> sid) (roomPlayers (snd e)))"
    by (cases "filter (\<lambda>p. player_id p \<noteq> sid) (roomPlayers (snd e))") simp_all
  ultimately show ?thesis
    using assms(1)
    by (auto simp: roomsInvariant_def leaveRoom_def Let_def emit_def distinct_update distinct_delete
        intro!: list_all_update list_all_delete)
qed

lemma fold_leaveRoom_invariant:
  "roomsInvariant s \<Longrightarrow> list_all (\<lambda>e. length (roomPlayers (snd e)) \<le> 2) es \<Longrightarrow>
     roomsInvariant (fold (leaveRoom sid) es s)"
  by (induction es arbitrary: s) (auto intro: leaveRoom_invariant)

lemma disconnect_invariant: "roomsInvariant s \<Longrightarrow> roomsInvariant (disconnect sid s)"
proof -
  assume i: "roomsInvariant s"
  then have "list_all (\<lambda>e. length (roomPlayers (snd e)) \<le> 2) (rooms s)"
    by (simp add: roomsInvariant_def list_all_iff)
  with i show ?thesis
    unfolding disconnect_def by (rule fold_leaveRoom_invariant)
qed

lemma requestGameState_rooms [simp]: "rooms (requestGameState sid c s) = rooms s"
  by (simp add: requestGameState_def emit_def split: option.split)

lemma requestGameState_invariant:
  "roomsInvariant s \<Longrightarrow> roomsInvariant (requestGameState sid c s)"
  by (simp add: roomsInvariant_def)

lemma serve_invariant: "roomsInvariant s \<Longrightarrow> post (serve rq s) roomsInvariant"
proof (cases rq)
  case (MakeMove sid c mv gt rnd)
  assume i: "roomsInvariant s"
  have "post (makeMove sid c mv gt rnd s) roomsInvariant"
    by (rule post_mono[OF makeMove_rooms]) (use i in \<open>simp add: roomsInvariant_def\<close>)
  with MakeMove show ?thesis by simp
next
  case (TimeoutFires h)
  assume i: "roomsInvariant s"
  have "post (timeoutFires h s) roomsInvariant"
    by (rule post_mono[OF timeoutFires_rooms]) (use i in \<open>simp add: roomsInvariant_def\<close>)
  with TimeoutFires show ?thesis by simp
qed (simp_all add: createRoom_invariant joinRoom_invariant selectGame_invariant
      disconnect_invariant requestGameState_invariant)

lemma reachable_invariant: "reachable s \<Longrightarrow> roomsInvariant s"
proof (induction rule: reachable.induct)
  case start
  show ?case by (simp add: roomsInvariant_def initialServer_def)
next
  case (step s rq s')
  from postD[OF serve_invariant[OF step.IH] step.hyps(2)] show ?case .
qed

lemma leaveRoom_rooms:
  "map_of (rooms (leaveRoom sid (k, r) s)) c =
     (if c = k then (if remainingPlayers sid r = [] then None
                     else Some (r\<lparr>roomPlayers := remainingPlayers sid r\<rparr>))
      else map_of (rooms s) c)"
  by (simp add: leaveRoom_def Let_def emit_def update_conv' delete_conv' remainingPlayers_def)

lemma leaveRoom_gameStates:
  "gameStates (leaveRoom sid (k, r) s) c =
     (if c = k then (if remainingPlayers sid r = [] then None
                     else map_option unshare (gameStates s k))
      else gameStates s c)"
  by (simp add: leaveRoom_def Let_def emit_def remainingPlayers_def)

lemma map_of_clearTimeout_None: "map_of ts h = None \<Longrightarrow> map_of (clearTimeout h' ts) h = None"
  by (cases "h = h'") simp_all

lemma leaveRoom_timeouts_None:
  "map_of (timeouts s) h = None \<Longrightarrow> map_of (timeouts (leaveRoom sid e s)) h = None"
  by (simp add: leaveRoom_def Let_def emit_def map_of_clearTimeout_None split: option.split)

lemma fold_leaveRoom_timeouts_None:
  "map_of (timeouts s) h = None \<Longrightarrow> map_of (timeouts (fold (leaveRoom sid) es s)) h = None"
  by (induction es arbitrary: s) (simp_all add: leaveRoom_timeouts_None)

lemma leaveRoom_cancels:
  "remainingPlayers sid r = [] \<Longrightarrow> gameStates s c = Some gs \<Longrightarrow> timer gs = Some h \<Longrightarrow>
     map_of (timeouts (leaveRoom sid (c, r) s)) h = None"
  by (simp add: leaveRoom_def Let_def remainingPlayers_def)

lemma fold_leaveRoom_rooms:
  "distinct (map fst es) \<Longrightarrow>
   map_of (rooms (fold (leaveRoom sid) es s)) c =
     (case map_of es c of
        None \<Rightarrow> map_of (rooms s) c
      | Some r \<Rightarrow> if remainingPlayers sid r = [] then None
                  else Some (r\<lparr>roomPlayers := remainingPlayers sid r\<rparr>))"
proof (induction es arbitrary: s)
  case Nil
  show ?case by simp
next
  case (Cons e es)
  obtain k r where e: "e = (k, r)" by (cases e)
  from Cons.prems e have d: "distinct (map fst es)" and n: "map_of es k = None"
    by (auto simp: map_of_eq_None_iff)
  show ?case
    using Cons.IH[OF d, of "leaveRoom sid (k, r) s"] n
    by (auto simp: e leaveRoom_rooms split: option.split)
qed

lemma fold_leaveRoom_gameStates:
  "distinct (map fst es) \<Longrightarrow>
   gameStates (fold (leaveRoom sid) es s) c =
     (case map_of es c of
        None \<Rightarrow> gameStates s c
      | Some r \<Rightarrow> if remainingPlayers sid r = [] then None
                  else map_option unshare (gameStates s c))"
proof (induction es arbitrary: s)
  case Nil
  show ?case by simp
next
  case (Cons e es)
  obtain k r where e: "e = (k, r)" by (cases e)
  from Cons.prems e have d: "distinct (map fst es)" and n: "map_of es k = None"
    by (auto simp: map_of_eq_None_iff)
  show ?case
    using Cons.IH[OF d, of "leaveRoom sid (k, r) s"] n
    by (auto simp: e leaveRoom_gameStates split: option.split)
qed

lemma fold_leaveRoom_cancels:
  "distinct (map fst es) \<Longrightarrow> map_of es c = Some r \<Longrightarrow> remainingPlayers sid r = [] \<Longrightarrow>
   gameStates s c = Some gs \<Longrightarrow> timer gs = Some h \<Longrightarrow>
   map_of (timeouts (fold (leaveRoom sid) es s)) h = None"
proof (induction es arbitrary: s)
  case Nil
  then show ?case by simp
next
  case (Cons e es)
  obtain k r0 where e: "e = (k, r0)" by (cases e)
  from Cons.prems(1) e have d: "distinct (map fst es)" by simp
  show ?case
  proof (cases "k = c")
    case True
    with Cons.prems(2) e have "r0 = r" by simp
    with True e Cons.prems have "map_of (timeouts (leaveRoom sid e s)) h = None"
      by (simp add: leaveRoom_cancels)
    then show ?thesis by (simp add: fold_leaveRoom_timeouts_None)
  next
    case False
    with Cons.prems(2) e have m: "map_of es c = Some r" by simp
    from False Cons.prems(4) e have g: "gameStates (leaveRoom sid e s) c = Some gs"
      by (simp add: leaveRoom_gameStates)
    from Cons.IH[OF d m Cons.prems(3) g Cons.prems(5)] show ?thesis by simp
  qed
qed

text \<open>
  In every reachable state of the server each room has 0, 1 or 2 players (in fact 1 or 2).
  createRoom stores a room with one player; joinRoom leaves the rooms as they were and
  answers "Room is full" when the room has 2 players, and appends the player otherwise;
  after a disconnect no room holds the leaving connection; and a room all of whose players
  were that connection is gone from the rooms, its game state is gone, and the one timeout
  that its game state refers to is no longer pending.
\<close>

lemma rooms_of_reachable_states:
  assumes "reachable s"
  shows "(\<forall>e \<in> set (rooms s). length (roomPlayers (snd e)) \<in> {0, 1, 2}) \<and>
         (\<forall>e \<in> set (rooms s). length (roomPlayers (snd e)) \<noteq> 0) \<and>
         map_option (\<lambda>r. length (roomPlayers r)) (map_of (rooms (createRoom sid n c s)) c) = Some 1 \<and>
         (\<forall>r. map_of (rooms s) c = Some r \<and> 2 \<le> length (roomPlayers r) \<longrightarrow>
              rooms (joinRoom sid c n s) = rooms s \<and>
              outbox (joinRoom sid c n s) = outbox s @ [ToSocket sid (ErrorMessage ''Room is full'')]) \<and>
         (\<forall>r. map_of (rooms s) c = Some r \<and> length (roomPlayers r) < 2 \<longrightarrow>
              map_option roomPlayers (map_of (rooms (joinRoom sid c n s)) c) =
                Some (roomPlayers r @ [\<lparr>player_id = sid, player_name = n, ready = True\<rparr>])) \<and>
         (\<forall>e \<in> set (rooms (disconnect sid s)). sid \<notin> player_id ` set (roomPlayers (snd e))) \<and>
         (\<forall>r. map_of (rooms s) c = Some r \<and> remainingPlayers sid r = [] \<longrightarrow>
              map_of (rooms (disconnect sid s)) c = None \<and>
              gameStates (disconnect sid s) c = None \<and>
              (\<forall>gs h. gameStates s c = Some gs \<and> timer gs = Some h \<longrightarrow>
                  map_of (timeouts (disconnect sid s)) h = None))"
proof -
  from assms have i: "roomsInvariant s" by (rule reachable_invariant)
  then have d: "distinct (map fst (rooms s))" by (simp add: roomsInvariant_def)
  have 1: "\<forall>e \<in> set (rooms s). length (roomPlayers (snd e)) \<in> {0, 1, 2}"
    and 2: "\<forall>e \<in> set (rooms s). length (roomPlayers (snd e)) \<noteq> 0"
    using i by (auto simp: roomsInvariant_def list_all_iff)
  have 3: "map_option (\<lambda>r. length (roomPlayers r)) (map_of (rooms (createRoom sid n c s)) c) = Some 1"
    by (simp add: createRoom_def Let_def emit_def update_conv')
  have 4: "\<forall>r. map_of (rooms s) c = Some r \<and> 2 \<le> length (roomPlayers r) \<longrightarrow>
              rooms (joinRoom sid c n s) = rooms s \<and>
              outbox (joinRoom sid c n s) = outbox s @ [ToSocket sid (ErrorMessage ''Room is full'')]"
    by (simp add: joinRoom_def emit_def)
  have 5: "\<forall>r. map_of (rooms s) c = Some r \<and> length (roomPlayers r) < 2 \<longrightarrow>
              map_option roomPlayers (map_of (rooms (joinRoom sid c n s)) c) =
                Some (roomPlayers r @ [\<lparr>player_id = sid, player_name = n, ready = True\<rparr>])"
    by (simp add: joinRoom_def Let_def emit_def update_conv')
  have 6: "\<forall>e \<in> set (rooms (disconnect sid s)). sid \<notin> player_id ` set (roomPlayers (snd e))"
  proof
    fix e assume e: "e \<in> set (rooms (disconnect sid s))"
    from disconnect_invariant[OF i] have "distinct (map fst (rooms (disconnect sid s)))"
      by (simp add: roomsInvariant_def)
    with e have "map_of (rooms (disconnect sid s)) (fst e) = Some (snd e)" by simp
    then obtain r where "r\<lparr>roomPlayers := remainingPlayers sid r\<rparr> = snd e"
      unfolding disconnect_def fold_leaveRoom_rooms[OF d]
      by (auto split: option.splits if_splits)
    then have "roomPlayers (snd e) = remainingPlayers sid r"
      by (metis room.select_convs(3) room.surjective room.update_convs(3))
    then show "sid \<notin> player_id ` set (roomPlayers (snd e))"
      by (auto simp: remainingPlayers_def)
  qed
  have 7: "\<forall>r. map_of (rooms s) c = Some r \<and> remainingPlayers sid r = [] \<longrightarrow>
              map_of (rooms (disconnect sid s)) c = None \<and>
              gameStates (disconnect sid s) c = None \<and>
              (\<forall>gs h. gameStates s c = Some gs \<and> timer gs = Some h \<longrightarrow>
                  map_of (timeouts (disconnect sid s)) h = None)"
    unfolding disconnect_def fold_leaveRoom_rooms[OF d] fold_leaveRoom_gameStates[OF d]
    using fold_leaveRoom_cancels[OF d, of c _ sid s] by auto
  from 1 2 3 4 5 6 7 show ?thesis by blast
qed

text \<open>Ann creates ROOM01 and Bob joins: the room has two players and refuses Cy. When
  Ann leaves the room she is alone in, the room and its game state are gone.\<close>

lemma rooms_of_reachable_states_example:
  "reachable annAndBob \<and>
   map_option (\<lambda>r. length (roomPlayers r)) (map_of (rooms annAndBob) ''ROOM01'') = Some 2 \<and>
   rooms (joinRoom ''c'' ''ROOM01'' ''Cy'' annAndBob) = rooms annAndBob \<and>
   map_of (rooms (disconnect ''a'' annAlone)) ''ROOM01'' = None \<and>
   gameStates (disconnect ''a'' annAlone) ''ROOM01'' = None"
proof -
  have r1: "reachable annAlone"
    unfolding annAlone_def
    by (rule reachable.step[OF reachable.start, of "CreateRoom ''a'' ''Ann'' ''ROOM01''"]) simp
  have r2: "reachable annAndBob"
    unfolding annAndBob_def
    by (rule reachable.step[OF r1, of "JoinRoom ''b'' ''ROOM01'' ''Bob''"]) simp
  let ?ann = "\<lparr>player_id = ''a'', player_name = ''Ann'', ready = True\<rparr>"
  let ?bob = "\<lparr>player_id = ''b'', player_name = ''Bob'', ready = True\<rparr>"
  have m1: "map_of (rooms annAlone) ''ROOM01'' =
      Some \<lparr>code = ''ROOM01'', host = ''a'', roomPlayers = [?ann], gameSelected = None\<rparr>"
    by (simp add: annAlone_def createRoom_def Let_def emit_def initialServer_def)
  have m2: "map_of (rooms annAndBob) ''ROOM01'' =
      Some \<lparr>code = ''ROOM01'', host = ''a'', roomPlayers = [?ann, ?bob], gameSelected = None\<rparr>"
    by (simp add: annAndBob_def joinRoom_def m1 Let_def emit_def update_conv')
  from rooms_of_reachable_states[OF r2, where c = "''ROOM01''" and sid = "''c''" and n = "''Cy''"] m2
  have a: "rooms (joinRoom ''c'' ''ROOM01'' ''Cy'' annAndBob) = rooms annAndBob" by simp
  from rooms_of_reachable_states[OF r1, where c = "''ROOM01''" and sid = "''a''" and n = "''Ann''"] m1
  have b: "map_of (rooms (disconnect ''a'' annAlone)) ''ROOM01'' = None \<and>
           gameStates (disconnect ''a'' annAlone) ''ROOM01'' = None"
    by (simp add: remainingPlayers_def)
  from r2 m2 a b show ?thesis by simp
qed

text \<open>Every state that a run from the initial server returns is reachable.\<close>

lemma run_reachable: "reachable s \<Longrightarrow> run rqs s = Returns s' \<Longrightarrow> reachable s'"
proof (induction rqs arbitrary: s)
  case Nil
  then show ?case by simp
next
  case (Cons rq rqs)
  from Cons.prems(2) obtain s1 where a: "serve rq s = Returns s1" and b: "run rqs s1 = Returns s'"
    by (cases "serve rq s") simp_all
  from reachable.step[OF Cons.prems(1) a] have "reachable s1" .
  from Cons.IH[OF this b] show ?case .
qed

lemma leaving_runs:
  "(case run playThenLeave initialServer of
      Returns s \<Rightarrow> rooms s = [] \<and> gameStates s ''ROOM01'' = None \<and> timeouts s = []
    | Throws \<Rightarrow> False | Untyped \<Rightarrow> False)"
  "(case run reselectThenLeave initialServer of
      Returns s \<Rightarrow> rooms s = [] \<and> gameStates s ''ROOM01'' = None \<and>
                   timeouts s = [(0, ''ROOM01'', 4)]
    | Throws \<Rightarrow> False | Untyped \<Rightarrow> False)"
  by code_simp+

text \<open>
  C6. The disconnect handler, commented "Clean up rooms and timers", cancels the one
  timeout that the game state of the emptied room refers to. selectGame replaces the game
  state of a room by a new one whose timer is null and does not cancel the timeout of the
  state it replaces (startTurnTimer, which also replaces the handle, does cancel it). So:
  Ann creates ROOM01, Bob joins, Ann selects tictactoe and makes the first move, which
  starts the 4 second timeout with handle 0. When both players leave now, the room, its
  game state and the timeout are gone. When Ann selects the game again before both leave,
  the state reached has no room and no game state for ROOM01, and the timeout with
  handle 0 for ROOM01 is still pending.
\<close>

theorem emptied_room_leaves_timeout_pending:
  "(\<exists>s. run playThenLeave initialServer = Returns s \<and> reachable s \<and>
        map_of (rooms s) ''ROOM01'' = None \<and> gameStates s ''ROOM01'' = None \<and>
        timeouts s = []) \<and>
   (\<exists>s. run reselectThenLeave initialServer = Returns s \<and> reachable s \<and>
        map_of (rooms s) ''ROOM01'' = None \<and> gameStates s ''ROOM01'' = None \<and>
        map_of (timeouts s) 0 = Some (''ROOM01'', 4))"
proof -
  have "\<exists>s. run playThenLeave initialServer = Returns s \<and> reachable s \<and>
        map_of (rooms s) ''ROOM01'' = None \<and> gameStates s ''ROOM01'' = None \<and>
        timeouts s = []"
  proof (cases "run playThenLeave initialServer")
    case (Returns s)
    from run_reachable[OF reachable.start Returns] have "reachable s" .
    with leaving_runs(1) Returns show ?thesis by simp
  qed (use leaving_runs(1) in simp_all)
  moreover have "\<exists>s. run reselectThenLeave initialServer = Returns s \<and> reachable s \<and>
        map_of (rooms s) ''ROOM01'' = None \<and> gameStates s ''ROOM01'' = None \<and>
        map_of (timeouts s) 0 = Some (''ROOM01'', 4)"
  proof (cases "run reselectThenLeave initialServer")
    case (Returns s)
    from run_reachable[OF reachable.start Returns] have "reachable s" .
    with leaving_runs(2) Returns show ?thesis by simp
  qed (use leaving_runs(2) in simp_all)
  ultimately show ?thesis by simp
qed

text \<open>After the second run the emptied room is gone and its timeout is pending.\<close>

theorem emptied_room_leaves_timeout_pending_witness:
  "\<exists>s. run reselectThenLeave initialServer = Returns s \<and>
        map_of (rooms s) ''ROOM01'' = None \<and> map_of (timeouts s) 0 = Some (''ROOM01'', 4)"
  using emptied_room_leaves_timeout_pending by auto
text \<open>
  C7. The claim says that a minichess pawn steps forward, toward the opposing side's back
  rank. In the code the uppercase side, which starts on rows 3 and 4, has direction +1
  and the lowercase side, on rows 0 and 1, direction -1: each pawn steps toward its own
  back rank. From the initial position the step of Ann's pawn from (3,0) to the empty
  (2,0) is rejected, and so is the step of Bob's from (1,0) to (2,0); once the square
  behind Ann's pawn at (3,1) is empty, its step toward the opponent is still rejected and
  its step back to (4,1) is accepted.
\<close>

theorem pawns_step_away_from_the_opponent:
  "isValidChessMove initializeMiniChess 3 0 2 0 = Returns False \<and>
   isValidChessMove initializeMiniChess 1 0 2 0 = Returns False \<and>
   processMove (newGame ''minichess'' (ChessBoard initializeMiniChess)) (FromToMove 3 0 2 0) ''a''
     ''minichess'' 0 =
     Returns \<lparr>resultState = newGame ''minichess'' (ChessBoard initializeMiniChess), valid = False,
              extras = [], cancelled = []\<rparr> \<and>
   processMove chessKnightsOut (FromToMove 3 1 2 1) ''a'' ''minichess'' 0 =
     Returns \<lparr>resultState = chessKnightsOut, valid = False, extras = [], cancelled = []\<rparr> \<and>
   processMove chessKnightsOut (FromToMove 3 1 4 1) ''a'' ''minichess'' 0 =
     Returns \<lparr>resultState = chessKnightsOut\<lparr>currentPlayer := ''b'', board := ChessBoard
        [[Some (Lower Rook), None, Some (Lower King), Some (Lower Knight), Some (Lower Rook)],
         [Some (Lower Pawn), Some (Lower Pawn), Some (Lower Pawn), Some (Lower Pawn), Some (Lower Pawn)],
         [Some (Lower Knight), None, Some (Upper Knight), None, None],
         [Some (Upper Pawn), None, Some (Upper Pawn), Some (Upper Pawn), Some (Upper Pawn)],
         [Some (Upper Rook), Some (Upper Pawn), Some (Upper King), Some (Upper Knight), Some (Upper Rook)]]\<rparr>,
       valid = True, extras = [], cancelled = []\<rparr>"
  by code_simp

theorem pawns_step_away_from_the_opponent_witness:
  "\<exists>r. processMove chessKnightsOut (FromToMove 3 1 2 1) ''a'' ''minichess'' 0 = Returns r \<and> \<not> valid r"
  using pawns_step_away_from_the_opponent by simp

text \<open>The pawn rule of the code on any board: one row in the direction of the side, and
  either the same column onto a square that holds nothing or a neighbouring column onto
  a piece of the other side.\<close>

lemma pawn_rule:
  assumes "at2 b fromRow fromCol = Returns (Some (Some piece))" and "kindOf piece = Pawn"
    and "at2 b toRow toCol = Returns tgt"
  shows "isValidChessMove b fromRow fromCol toRow toCol =
     Returns (toRow - fromRow = (if isUpper piece then 1 else -1) \<and>
              ((toCol = fromCol \<and> truthy tgt = None) \<or>
               (\<bar>toCol - fromCol\<bar> = 1 \<and> (\<exists>t. truthy tgt = Some t \<and> isUpper t \<noteq> isUpper piece))))"
  using assms
  by (auto simp: isValidChessMove_def truthy_def Let_def split: option.splits)


lemma ludoPlayerOf_set [simp]: "ludoPlayerOf (setLudoPlayer lb k p) k = p"
  by (simp add: ludoPlayerOf_def setLudoPlayer_def split: playerKey.split)

lemma ludoPlayerOf_dice [simp]:
  "ludoPlayerOf (lb\<lparr>diceRolled := x\<rparr>) k = ludoPlayerOf lb k"
  "ludoPlayerOf (lb\<lparr>diceValue := d\<rparr>) k = ludoPlayerOf lb k"
  by (simp_all add: ludoPlayerOf_def split: playerKey.split)

lemma canPlayerMove_dice [simp]:
  "canPlayerMove (lb\<lparr>diceValue := d, diceRolled := x\<rparr>) k v = canPlayerMove lb k v"
  by (simp add: canPlayerMove_def)




text \<open>The connect4 handler leaves the timer fields alone.\<close>

lemma connect4_frame:
  "post (processConnect4Move gs mv playerId)
     (\<lambda>r. firstMoveMade (resultState r) = firstMoveMade gs \<and> timer (resultState r) = timer gs \<and>
          cancelled r = [])"
  unfolding processConnect4Move_def Let_def
  by (auto simp: switchTurns_def intro!: post_weaken split: board.split move.split)

lemma playAll_connect4_frame:
  "post (playAll ''connect4'' ms gs)
     (\<lambda>gs'. firstMoveMade gs' = firstMoveMade gs \<and> timer gs' = timer gs)"
proof (induction ms arbitrary: gs)
  case Nil
  show ?case by simp
next
  case (Cons m ms)
  obtain p mv rnd where m: "m = (p, mv, rnd)" by (cases m)
  have "post (processConnect4Move gs mv p)
     (\<lambda>r. post (playAll ''connect4'' ms (resultState r))
        (\<lambda>gs'. firstMoveMade gs' = firstMoveMade gs \<and> timer gs' = timer gs))"
  proof (rule post_mono[OF connect4_frame])
    fix r
    assume "firstMoveMade (resultState r) = firstMoveMade gs \<and> timer (resultState r) = timer gs \<and>
            cancelled r = []"
    then show "post (playAll ''connect4'' ms (resultState r))
        (\<lambda>gs'. firstMoveMade gs' = firstMoveMade gs \<and> timer gs' = timer gs)"
      using Cons.IH[of "resultState r"] by simp
  qed
  then show ?case by (simp add: m processMove_def)
qed

lemma connect4_starts_unmoved:
  "post (initializeGameState r ''connect4'' ds) (\<lambda>gs. \<not> firstMoveMade gs \<and> timer gs = None)"
  by (simp add: initializeGameState_def Let_def split: option.split)

lemma connect4_game_never_moved:
  assumes "initializeGameState r ''connect4'' ds = Returns gs0"
    and "playAll ''connect4'' ms gs0 = Returns gs"
  shows "\<not> firstMoveMade gs \<and> timer gs = None"
  using postD[OF connect4_starts_unmoved assms(1)] postD[OF playAll_connect4_frame assms(2)]
  by simp

text \<open>
  C9. An accepted connect4 move never leads to a turn timer being started: a makeMove
  with game type connect4 leaves the pending timeouts and the handle counter as they
  were, the connect4 handler leaves \<open>firstMoveMade\<close> and the timer of the state as they
  were, and connect4 is the one supported game type without a duration in the branch
  that starts the timer. In a game initialised for connect4 and played with connect4
  moves \<open>firstMoveMade\<close> is therefore never set.
\<close>

theorem connect4_move_starts_no_timer:
  assumes "makeMove sid roomCode mv ''connect4'' rnd s = Returns s'"
  shows "timeouts s' = timeouts s \<and> nextHandle s' = nextHandle s \<and>
         (\<forall>gs. gameStates s roomCode = Some gs \<longrightarrow>
            (\<exists>gs'. gameStates s' roomCode = Some gs' \<and>
                   firstMoveMade gs' = firstMoveMade gs \<and> timer gs' = timer gs)) \<and>
         list_all (\<lambda>gt. (moveTimerDuration gt = None) = (gt = ''connect4'')) supportedGameTypes \<and>
         (\<forall>r ds ms gs0 gs.
            initializeGameState r ''connect4'' ds = Returns gs0 \<and>
            playAll ''connect4'' ms gs0 = Returns gs \<longrightarrow> \<not> firstMoveMade gs)"
proof -
  have nm: "\<forall>r ds ms gs0 gs.
            initializeGameState r ''connect4'' ds = Returns gs0 \<and>
            playAll ''connect4'' ms gs0 = Returns gs \<longrightarrow> \<not> firstMoveMade gs"
    using connect4_game_never_moved by blast
  have tab: "list_all (\<lambda>gt. (moveTimerDuration gt = None) = (gt = ''connect4'')) supportedGameTypes"
    by (simp add: supportedGameTypes_def moveTimerDuration_def)
  show ?thesis
  proof (cases "gameStates s roomCode")
    case None
    with assms tab nm show ?thesis by (simp add: makeMove_def)
  next
    case (Some gs)
    with assms obtain r where r: "processConnect4Move gs mv sid = Returns r"
      by (auto simp: makeMove_def processMove_def andThen_eq_Returns)
    from postD[OF connect4_frame r] have fr: "firstMoveMade (resultState r) = firstMoveMade gs"
      "timer (resultState r) = timer gs" "cancelled r = []" by simp_all
    from assms Some r fr tab
    have "timeouts s' = timeouts s \<and> nextHandle s' = nextHandle s \<and>
         (\<forall>gs. gameStates s roomCode = Some gs \<longrightarrow>
            (\<exists>gs'. gameStates s' roomCode = Some gs' \<and>
                   firstMoveMade gs' = firstMoveMade gs \<and> timer gs' = timer gs))"
      by (auto simp: makeMove_def processMove_def Let_def emit_def moveTimerDuration_def
          split: if_splits)
    with tab nm show ?thesis by blast
  qed
qed

text \<open>Ann's disc in column 2 of a running game arms nothing.\<close>

theorem connect4_move_starts_no_timer_witness:
  "\<exists>s'. makeMove ''a'' ''ROOM01'' (ColumnMove 2) ''connect4'' 0 connect4Server = Returns s' \<and>
        timeouts s' = [] \<and> nextHandle s' = 0 \<and>
        map_option firstMoveMade (gameStates s' ''ROOM01'') = Some False"
proof -
  have g: "gameStates connect4Server ''ROOM01'' = Some connect4Mid"
    by (simp add: connect4Server_def)
  have "processMove connect4Mid (ColumnMove 2) ''a'' ''connect4'' 0 =
    Returns \<lparr>resultState = connect4Mid\<lparr>currentPlayer := ''b'', board := Connect4Board
        [[None, None, None, None, None, None, None],
         [None, None, None, None, None, None, None],
         [None, None, None, None, None, None, None],
         [Some DiscR, Some DiscY, None, None, None, None, None],
         [Some DiscR, Some DiscY, None, None, None, None, None],
         [Some DiscR, Some DiscY, Some DiscR, None, None, None, None]]\<rparr>,
     valid = True, extras = [], cancelled = []\<rparr>"
    by code_simp
  then have "\<exists>s'. makeMove ''a'' ''ROOM01'' (ColumnMove 2) ''connect4'' 0 connect4Server = Returns s'"
    by (auto simp: makeMove_def g Let_def moveTimerDuration_def)
  then obtain s' where m: "makeMove ''a'' ''ROOM01'' (ColumnMove 2) ''connect4'' 0 connect4Server = Returns s'"
    by blast
  from connect4_move_starts_no_timer[OF m] g
  have "timeouts s' = timeouts connect4Server" and "nextHandle s' = nextHandle connect4Server"
    and "\<exists>gs'. gameStates s' ''ROOM01'' = Some gs' \<and> firstMoveMade gs' = firstMoveMade connect4Mid"
    by auto
  moreover have "timeouts connect4Server = []" and "nextHandle connect4Server = 0"
    and "\<not> firstMoveMade connect4Mid"
    by (simp_all add: connect4Server_def connect4Mid_def newGame_def)
  ultimately show ?thesis using m by auto
qed

text \<open>The memorymatch handler never writes the current player.\<close>

lemma scoreWinner_turn:
  "post (scoreWinner gs sc) (\<lambda>gs'. currentPlayer gs' = currentPlayer gs)"
  by (simp add: scoreWinner_def Let_def split: option.split)

lemma secondFlip_turn:
  "post (secondFlip gs m playerId hs) (\<lambda>r. currentPlayer (resultState r) = currentPlayer gs)"
  unfolding secondFlip_def Let_def
  by (auto intro!: post_weaken post_mono[OF scoreWinner_turn] split: option.split)

lemma memory_keeps_turn:
  "post (processMemoryMatchMove gs mv playerId)
     (\<lambda>r. currentPlayer (resultState r) = currentPlayer gs)"
proof (cases "clearTimer gs")
  case (Pair gs1 hs)
  then have k: "currentPlayer gs1 = currentPlayer gs"
    by (auto simp: clearTimer_def split: option.splits)
  have a: "currentPlayer g = x \<Longrightarrow>
      post (secondFlip g m playerId hs') (\<lambda>r. currentPlayer (resultState r) = x)"
    for g m hs' x
    by (rule post_mono[OF secondFlip_turn]) simp
  show ?thesis
    unfolding processMemoryMatchMove_def Let_def Pair
    by (simp add: k a split: board.split move.split option.split)
qed

text \<open>
  C10. In memorymatch a first flip (no card pending, the target face down and unmatched,
  the acting player's turn, the game not over) is accepted and leaves the current player
  as it was; and no return of the handler, after a second flip or otherwise, changes the
  current player.
\<close>

theorem memorymatch_first_flip:
  assumes "board gs = MemoryBoard m" and "flippedCards m = []"
    and "at (cards m) cardIndex = Some c" and "\<not> flipped c" and "\<not> matched c"
    and "currentPlayer gs = playerId" and "\<not> gameOver gs"
  shows "(\<exists>r. processMemoryMatchMove gs (CardMove cardIndex) playerId = Returns r \<and> valid r \<and>
              currentPlayer (resultState r) = currentPlayer gs) \<and>
         (\<forall>g mv p r. processMemoryMatchMove g mv p = Returns r \<longrightarrow>
              currentPlayer (resultState r) = currentPlayer g)"
proof
  show "\<exists>r. processMemoryMatchMove gs (CardMove cardIndex) playerId = Returns r \<and> valid r \<and>
              currentPlayer (resultState r) = currentPlayer gs"
    using assms
    by (simp add: processMemoryMatchMove_def clearTimer_def put_in_range accepted_def
        split: option.splits)
  show "\<forall>g mv p r. processMemoryMatchMove g mv p = Returns r \<longrightarrow>
              currentPlayer (resultState r) = currentPlayer g"
    using postD[OF memory_keeps_turn] by blast
qed

theorem memorymatch_first_flip_witness:
  "\<exists>r. processMemoryMatchMove (newGame ''memorymatch'' (MemoryBoard memoryExample)) (CardMove 3) ''a''
          = Returns r \<and> valid r \<and> currentPlayer (resultState r) = ''a''"
proof -
  let ?c = "\<lparr>cardValue = 2, flipped = False, matched = False\<rparr>"
  have "(\<exists>r. processMemoryMatchMove (newGame ''memorymatch'' (MemoryBoard memoryExample))
            (CardMove 3) ''a'' = Returns r \<and> valid r \<and>
            currentPlayer (resultState r) =
              currentPlayer (newGame ''memorymatch'' (MemoryBoard memoryExample))) \<and>
        (\<forall>g mv p r. processMemoryMatchMove g mv p = Returns r \<longrightarrow>
              currentPlayer (resultState r) = currentPlayer g)"
    by (rule memorymatch_first_flip[where m = memoryExample and c = ?c])
       (simp_all add: newGame_def memoryExample_def)
  then show ?thesis by (simp add: newGame_def)
qed

end
